theory Spec2Isabelle
  imports Complex_Main "HOL-Library.AList"
begin

section \<open>The statistical-estimates notebook\<close>

text \<open>
  The repository is one Jupyter notebook, \<^verbatim>\<open>tutorials/statisticalEstimates/_0.ipynb\<close>.
  Its code cells are straight-line Python over a kernel namespace: they bind names,
  call numpy's global random generator, build pandas frames, assign columns through
  \<^verbatim>\<open>.loc\<close> and concatenate the five cohort frames.

  The model follows that shape. A kernel is the namespace (a map from names to values)
  together with the state of numpy's global generator. A statement takes a kernel and
  either finishes with the new kernel or raises a Python exception, and the kernel then
  keeps what the statement did before it raised. A cell is a list of statements and
  the notebook a list of cells; running stops at the first exception, as a Python
  script or the notebook's "Run All" does.
\<close>

subsection \<open>Values\<close>

text \<open>
  Floating-point numbers are modelled by reals: the notebook only stores and compares
  the decimal literals of its matrices and passes the sampler's draws on untouched.
\<close>

datatype pyerr = NameError string | ValueError | TypeError | AttributeError

type_synonym ndarray = "real list list"

datatype cell = FloatC real | IntC int | StrC string | NaN

text \<open>A frame: its row labels, and its columns in order, each with one value per row.\<close>

record frame =
  index :: "nat list"
  columns :: "(string \<times> cell list) list"

datatype pyval =
    IntV int
  | VecV "real list"
  | ArrV ndarray
  | ListV "string list"
  | FrameV frame

record 'g kernel =
  globals :: "string \<rightharpoonup> pyval"
  rng :: 'g

datatype 'g outcome = Done "'g kernel" | Raised pyerr "'g kernel"

subsection \<open>numpy's random module\<close>

text \<open>
  numpy is not part of the repository. The two routines of \<^verbatim>\<open>np.random\<close> that the
  notebook calls are parameters of the model: each takes the generator's state and
  returns the drawn values with the advanced state, or raises.
  \<^verbatim>\<open>multivariate_normal g mean cov size\<close> and \<^verbatim>\<open>randint g low high size\<close>.
\<close>

record 'g np_random =
  multivariate_normal :: "'g \<Rightarrow> real list \<Rightarrow> ndarray \<Rightarrow> int \<Rightarrow> pyerr + ndarray \<times> 'g"
  randint :: "'g \<Rightarrow> int \<Rightarrow> int \<Rightarrow> int \<Rightarrow> pyerr + int list \<times> 'g"

text \<open>
  What numpy documents of them and the proofs rely on: for a mean of length \<open>d\<close>, a
  \<open>d \<times> d\<close> matrix and a size \<open>n \<ge> 0\<close>, the normal sampler returns \<open>n\<close> rows of \<open>d\<close> entries (with
  the default \<^verbatim>\<open>check_valid='warn'\<close> it returns whatever the matrix); for \<open>low < high\<close>
  and \<open>n \<ge> 0\<close>, \<^verbatim>\<open>randint\<close> returns \<open>n\<close> integers of the half-open range; a negative size is
  a ValueError of the normal sampler.
\<close>

definition square :: "nat \<Rightarrow> ndarray \<Rightarrow> bool" where
  "square d a \<longleftrightarrow> length a = d \<and> list_all (\<lambda>row. length row = d) a"

definition np_contract :: "'g np_random \<Rightarrow> bool" where
  "np_contract np \<longleftrightarrow>
     (\<forall>g mean cov n. square (length mean) cov \<and> 0 \<le> n \<longrightarrow>
        (\<exists>a g'. multivariate_normal np g mean cov n = Inr (a, g') \<and>
                length a = nat n \<and> list_all (\<lambda>row. length row = length mean) a)) \<and>
     (\<forall>g low high n. low < high \<and> 0 \<le> n \<longrightarrow>
        (\<exists>xs g'. randint np g low high n = Inr (xs, g') \<and>
                 length xs = nat n \<and> list_all (\<lambda>x. low \<le> x \<and> x < high) xs)) \<and>
     (\<forall>g mean cov n. n < 0 \<longrightarrow> multivariate_normal np g mean cov n = Inl ValueError)"

text \<open>\<^verbatim>\<open>np.repeat(v, n)\<close> on a scalar.\<close>

definition np_repeat :: "real \<Rightarrow> nat \<Rightarrow> real list" where
  "np_repeat v n = replicate n v"

subsection \<open>pandas\<close>

text \<open>
  pandas is not part of the repository either; the three operations the notebook uses
  are modelled after their documented behaviour.
\<close>

definition nrows :: "frame \<Rightarrow> nat" where
  "nrows f = length (index f)"

definition column :: "frame \<Rightarrow> string \<Rightarrow> cell list option" where
  "column f c = map_of (columns f) c"

text \<open>
  \<^verbatim>\<open>pd.DataFrame(a, columns=cols)\<close> on a two-dimensional array: a range index, one column
  per name; a row whose width is not the number of names is a ValueError.
\<close>

definition from_array :: "ndarray \<Rightarrow> string list \<Rightarrow> frame" where
  "from_array a cols =
     \<lparr>index = [0..<length a],
      columns = map (\<lambda>j. (cols ! j, map (\<lambda>row. FloatC (row ! j)) a)) [0..<length cols]\<rparr>"

definition DataFrame :: "ndarray \<Rightarrow> string list \<Rightarrow> pyerr + frame" where
  "DataFrame a cols =
     (if list_all (\<lambda>row. length row = length cols) a then Inr (from_array a cols)
      else Inl ValueError)"

text \<open>
  \<^verbatim>\<open>f.loc[:, c] = ...\<close>: an existing column is overwritten in place, a new one is appended
  after the others.

  A scalar is broadcast to every row. For a new column of a frame without rows pandas
  refuses it with a ValueError (cannot set a frame with no defined index and a scalar).
  The cells assign a label only to the frame they have just built, where the column is
  new.

  An array must have one value per row, else ValueError. This is pandas 1.x, the version
  of the notebook's recorded outputs, on a frame that has rows. (On a frame without rows
  pandas can take over the array's index, and pandas 2 broadcasts an array of one value
  over an existing column; the model raises there too. The notebook assigns an array to
  a frame it has not just built in cell 59 only, and the results below on a frame found
  bound to \<^verbatim>\<open>df_501_\<close> take it to have one row per sample, and at least one.)
\<close>

definition set_column :: "frame \<Rightarrow> string \<Rightarrow> cell list \<Rightarrow> frame" where
  "set_column f c vs = f\<lparr>columns := AList.update c vs (columns f)\<rparr>"

definition loc_set_scalar :: "frame \<Rightarrow> string \<Rightarrow> cell \<Rightarrow> pyerr + frame" where
  "loc_set_scalar f c v =
     (if nrows f = 0 \<and> column f c = None then Inl ValueError
      else Inr (set_column f c (replicate (nrows f) v)))"

definition loc_set_array :: "frame \<Rightarrow> string \<Rightarrow> cell list \<Rightarrow> pyerr + frame" where
  "loc_set_array f c vs =
     (if length vs = nrows f then Inr (set_column f c vs) else Inl ValueError)"

text \<open>
  \<^verbatim>\<open>pd.concat(fs, axis=0)\<close> with its defaults (outer join, index kept, no sorting): the
  row labels one frame after the other; the columns are the union of the frames'
  columns in order of first appearance; a frame without a column contributes NaN for
  each of its rows, and integers of such a column become floats. (Each column of the
  notebook's frames holds one kind of value, the same in every frame that has the
  column, so no other conversion arises.)
\<close>

fun first_occurrences :: "'a list \<Rightarrow> 'a list \<Rightarrow> 'a list" where
  "first_occurrences seen [] = []"
| "first_occurrences seen (x # xs) =
     (if x \<in> set seen then first_occurrences seen xs
      else x # first_occurrences (x # seen) xs)"

definition union_columns :: "frame list \<Rightarrow> string list" where
  "union_columns fs = first_occurrences [] (concat (map (\<lambda>f. map fst (columns f)) fs))"

definition column_or_nan :: "string \<Rightarrow> frame \<Rightarrow> cell list" where
  "column_or_nan c f = (case column f c of Some vs \<Rightarrow> vs | None \<Rightarrow> replicate (nrows f) NaN)"

fun upcast :: "cell \<Rightarrow> cell" where
  "upcast (IntC i) = FloatC (of_int i)"
| "upcast v = v"

definition concat_column :: "frame list \<Rightarrow> string \<Rightarrow> cell list" where
  "concat_column fs c =
     (let vs = concat (map (column_or_nan c) fs)
      in if list_ex (\<lambda>f. column f c = None) fs then map upcast vs else vs)"

definition pd_concat :: "frame list \<Rightarrow> frame" where
  "pd_concat fs =
     \<lparr>index = concat (map index fs),
      columns = map (\<lambda>c. (c, concat_column fs c)) (union_columns fs)\<rparr>"

subsection \<open>Statements\<close>

type_synonym 'g stmt = "'g np_random \<Rightarrow> 'g kernel \<Rightarrow> 'g outcome"

definition get_var :: "'g kernel \<Rightarrow> string \<Rightarrow> pyerr + pyval" where
  "get_var k x = (case globals k x of None \<Rightarrow> Inl (NameError x) | Some v \<Rightarrow> Inr v)"

definition bind_var :: "string \<Rightarrow> pyval \<Rightarrow> 'g kernel \<Rightarrow> 'g kernel" where
  "bind_var x v k = k\<lparr>globals := (globals k)(x \<mapsto> v)\<rparr>"

text \<open>
  The calls, on the values read. Each name of the notebook holds one kind of value; a
  value of another kind, which only something outside the notebook can have left in the
  kernel, is refused: with a TypeError by the numpy and pandas calls, with an
  AttributeError by \<^verbatim>\<open>.loc\<close> and \<^verbatim>\<open>.head()\<close>.
\<close>

fun call_multivariate_normal ::
  "'g np_random \<Rightarrow> 'g \<Rightarrow> pyval \<Rightarrow> pyval \<Rightarrow> pyval \<Rightarrow> pyerr + ndarray \<times> 'g" where
  "call_multivariate_normal np g (VecV m) (ArrV c) (IntV n) = multivariate_normal np g m c n"
| "call_multivariate_normal np g _ _ _ = Inl TypeError"

fun call_randint :: "'g np_random \<Rightarrow> 'g \<Rightarrow> int \<Rightarrow> int \<Rightarrow> pyval \<Rightarrow> pyerr + int list \<times> 'g" where
  "call_randint np g l h (IntV n) = randint np g l h n"
| "call_randint np g l h _ = Inl TypeError"

fun call_DataFrame :: "ndarray \<Rightarrow> pyval \<Rightarrow> pyerr + frame" where
  "call_DataFrame a (ListV cols) = DataFrame a cols"
| "call_DataFrame a _ = Inl TypeError"

fun as_frame :: "pyval \<Rightarrow> pyerr + frame" where
  "as_frame (FrameV f) = Inr f"
| "as_frame _ = Inl AttributeError"

definition get_frame :: "'g kernel \<Rightarrow> string \<Rightarrow> pyerr + frame" where
  "get_frame k x = (case get_var k x of Inl e \<Rightarrow> Inl e | Inr v \<Rightarrow> as_frame v)"

text \<open>\<^verbatim>\<open>x = v\<close> for a literal or a pure expression \<open>v\<close>.\<close>

definition assign :: "string \<Rightarrow> pyval \<Rightarrow> 'g stmt" where
  "assign x v np k = Done (bind_var x v k)"

text \<open>
  \<^verbatim>\<open>x = pd.DataFrame(np.random.multivariate_normal(mu, r, size=num_samples), columns=names)\<close>.
  Python evaluates the arguments left to right: \<^verbatim>\<open>mu\<close>, \<^verbatim>\<open>r\<close> and \<^verbatim>\<open>num_samples\<close> are read
  and the sampler is called before \<^verbatim>\<open>names\<close> is read.
\<close>

definition draw_frame :: "string \<Rightarrow> 'g stmt" where
  "draw_frame x np k =
     (case get_var k ''mu'' of Inl e \<Rightarrow> Raised e k | Inr m \<Rightarrow>
      case get_var k ''r'' of Inl e \<Rightarrow> Raised e k | Inr c \<Rightarrow>
      case get_var k ''num_samples'' of Inl e \<Rightarrow> Raised e k | Inr n \<Rightarrow>
      case call_multivariate_normal np (rng k) m c n of Inl e \<Rightarrow> Raised e k | Inr (a, g') \<Rightarrow>
      let k' = k\<lparr>rng := g'\<rparr> in
      case get_var k' ''names'' of Inl e \<Rightarrow> Raised e k' | Inr cols \<Rightarrow>
      case call_DataFrame a cols of Inl e \<Rightarrow> Raised e k' | Inr f \<Rightarrow>
      Done (bind_var x (FrameV f) k'))"

text \<open>\<^verbatim>\<open>x.loc[:, c] = 'label'\<close>.\<close>

definition loc_assign_str :: "string \<Rightarrow> string \<Rightarrow> string \<Rightarrow> 'g stmt" where
  "loc_assign_str x c label np k =
     (case get_frame k x of Inl e \<Rightarrow> Raised e k | Inr f \<Rightarrow>
      case loc_set_scalar f c (StrC label) of Inl e \<Rightarrow> Raised e k | Inr f' \<Rightarrow>
      Done (bind_var x (FrameV f') k))"

text \<open>
  \<^verbatim>\<open>x.loc[:, c] = np.random.randint(low=l, high=h, size=num_samples)\<close>. Python evaluates
  the right-hand side of an assignment before its target: the generator is called, and
  advanced, before \<^verbatim>\<open>x\<close> is looked up.
\<close>

definition loc_assign_randint :: "string \<Rightarrow> string \<Rightarrow> int \<Rightarrow> int \<Rightarrow> 'g stmt" where
  "loc_assign_randint x c l h np k =
     (case get_var k ''num_samples'' of Inl e \<Rightarrow> Raised e k | Inr n \<Rightarrow>
      case call_randint np (rng k) l h n of Inl e \<Rightarrow> Raised e k | Inr (xs, g') \<Rightarrow>
      let k' = k\<lparr>rng := g'\<rparr> in
      case get_frame k' x of Inl e \<Rightarrow> Raised e k' | Inr f \<Rightarrow>
      case loc_set_array f c (map IntC xs) of Inl e \<Rightarrow> Raised e k' | Inr f' \<Rightarrow>
      Done (bind_var x (FrameV f') k'))"

text \<open>\<^verbatim>\<open>x.head()\<close> and \<^verbatim>\<open>x.info()\<close>: the frame is read and shown, nothing changes.\<close>

definition display :: "string \<Rightarrow> 'g stmt" where
  "display x np k = (case get_frame k x of Inl e \<Rightarrow> Raised e k | Inr f \<Rightarrow> Done k)"

text \<open>
  \<^verbatim>\<open>x = pd.concat([y1, ..., yn], axis=0)\<close>: the names are read left to right, and the
  list is then passed on; \<^verbatim>\<open>pd.concat\<close> refuses what is not a frame with a TypeError.
\<close>

fun get_vars :: "'g kernel \<Rightarrow> string list \<Rightarrow> pyerr + pyval list" where
  "get_vars k [] = Inr []"
| "get_vars k (y # ys) =
     (case get_var k y of Inl e \<Rightarrow> Inl e | Inr v \<Rightarrow>
      case get_vars k ys of Inl e \<Rightarrow> Inl e | Inr vs \<Rightarrow> Inr (v # vs))"

fun frames_of :: "pyval list \<Rightarrow> frame list option" where
  "frames_of [] = Some []"
| "frames_of (FrameV f # vs) = map_option ((#) f) (frames_of vs)"
| "frames_of (_ # vs) = None"

definition call_concat :: "pyval list \<Rightarrow> pyerr + frame" where
  "call_concat vs =
     (case frames_of vs of None \<Rightarrow> Inl TypeError | Some fs \<Rightarrow> Inr (pd_concat fs))"

definition assign_concat :: "string \<Rightarrow> string list \<Rightarrow> 'g stmt" where
  "assign_concat x ys np k =
     (case get_vars k ys of Inl e \<Rightarrow> Raised e k | Inr vs \<Rightarrow>
      case call_concat vs of Inl e \<Rightarrow> Raised e k | Inr f \<Rightarrow>
      Done (bind_var x (FrameV f) k))"

text \<open>Statements run in order; the first exception ends the run.\<close>

fun exec :: "'g np_random \<Rightarrow> 'g stmt list \<Rightarrow> 'g kernel \<Rightarrow> 'g outcome" where
  "exec np [] k = Done k"
| "exec np (s # ss) k =
     (case s np k of Done k' \<Rightarrow> exec np ss k' | Raised e k' \<Rightarrow> Raised e k')"

subsection \<open>The cells\<close>

text \<open>
  The cells are named by the execution counts recorded in the notebook (53 to 61). The
  two cells before them import the libraries and set matplotlib's fonts; they touch
  nothing the later cells read but the module names, and are left out.
\<close>

text \<open>
  Cell 53, the parameters. \<open>parameter_cell n\<close> is the cell with the literal of
  \<^verbatim>\<open>num_samples\<close> left open; the notebook's cell has 1000.
\<close>

definition zscore_names :: "string list" where
  "zscore_names = [''job_sat'', ''int_qui'', ''age'', ''org_tnr'']"

definition parameter_cell :: "int \<Rightarrow> 'g stmt list" where
  "parameter_cell n =
     [assign ''num_samples'' (IntV n),
      assign ''mu'' (VecV (np_repeat 0 4)),
      assign ''names'' (ListV zscore_names)]"

definition cell_53 :: "'g stmt list" where
  "cell_53 = parameter_cell 1000"

text \<open>The five matrices bound to \<^verbatim>\<open>r\<close>, one per cohort cell.\<close>

definition r_micro :: ndarray where
  "r_micro = [[  1.00, -0.40, -0.03,  0.11],
              [ -0.40,  1.00, -0.05, -0.09],
              [ -0.03, -0.05,  1.00,  0.05],
              [  0.11, -0.09,  0.05,  1.00]]"

definition r_small :: ndarray where
  "r_small = [[  1.00, -0.30, -0.03,  0.11],
              [ -0.30,  1.00, -0.05, -0.09],
              [ -0.03, -0.05,  1.00,  0.05],
              [  0.11, -0.09,  0.05,  1.00]]"

definition r_medium :: ndarray where
  "r_medium = [[  1.00, -0.25, -0.03,  0.11],
               [ -0.25,  1.00, -0.05, -0.09],
               [ -0.03, -0.05,  1.00,  0.05],
               [  0.11, -0.09,  0.05,  1.00]]"

definition r_large :: ndarray where
  "r_large = [[  1.00, -0.20, -0.03,  0.11],
              [ -0.20,  1.00, -0.05, -0.09],
              [ -0.03, -0.05,  1.00,  0.05],
              [  0.11, -0.09,  0.05,  1.00]]"

definition r_very_large :: ndarray where
  "r_very_large = [[  1.00, -0.15, -0.03,  0.11],
                   [ -0.15,  1.00, -0.05, -0.09],
                   [ -0.03, -0.05,  1.00,  0.05],
                   [  0.11, -0.09,  0.05,  1.00]]"

text \<open>Cells 54 and 55: micro firms.\<close>

definition cell_54 :: "'g stmt list" where
  "cell_54 =
     [assign ''r'' (ArrV r_micro),
      draw_frame ''df_1_5'',
      loc_assign_str ''df_1_5'' ''cohort'' ''micro'',
      loc_assign_randint ''df_1_5'' ''firm_size'' 1 5]"

text \<open>
  \<open>cell_54_with R\<close> is cell 54 with the literal of its matrix left open, as
  \<open>parameter_cell\<close> leaves the sample size open.
\<close>

definition cell_54_with :: "ndarray \<Rightarrow> 'g stmt list" where
  "cell_54_with R =
     [assign ''r'' (ArrV R),
      draw_frame ''df_1_5'',
      loc_assign_str ''df_1_5'' ''cohort'' ''micro'',
      loc_assign_randint ''df_1_5'' ''firm_size'' 1 5]"

definition cell_55 :: "'g stmt list" where
  "cell_55 = [display ''df_1_5'']"

text \<open>Cells 56 and 57: small firms. The label written is \<^verbatim>\<open>'large'\<close>.\<close>

definition cell_56 :: "'g stmt list" where
  "cell_56 =
     [assign ''r'' (ArrV r_small),
      draw_frame ''df_6_25'',
      loc_assign_str ''df_6_25'' ''cohort'' ''large'',
      loc_assign_randint ''df_6_25'' ''firm_size'' 6 25]"

definition cell_57 :: "'g stmt list" where
  "cell_57 = [display ''df_6_25'']"

text \<open>Cell 58: medium firms.\<close>

definition cell_58 :: "'g stmt list" where
  "cell_58 =
     [assign ''r'' (ArrV r_medium),
      draw_frame ''df_26_100'',
      loc_assign_str ''df_26_100'' ''cohort'' ''medium'',
      loc_assign_randint ''df_26_100'' ''firm_size'' 26 100]"

text \<open>
  Cell 59: large firms. The last statement assigns the firm sizes into \<^verbatim>\<open>df_501_\<close>, not
  into \<^verbatim>\<open>df_101_500\<close>.
\<close>

definition cell_59 :: "'g stmt list" where
  "cell_59 =
     [assign ''r'' (ArrV r_large),
      draw_frame ''df_101_500'',
      loc_assign_str ''df_101_500'' ''cohort'' ''large'',
      loc_assign_randint ''df_501_'' ''firm_size'' 101 500]"

text \<open>Cell 60: very large firms.\<close>

definition cell_60 :: "'g stmt list" where
  "cell_60 =
     [assign ''r'' (ArrV r_very_large),
      draw_frame ''df_501_'',
      loc_assign_str ''df_501_'' ''cohort'' ''very large'',
      loc_assign_randint ''df_501_'' ''firm_size'' 501 2000]"

text \<open>Cell 61: data preparation.\<close>

definition cell_61 :: "'g stmt list" where
  "cell_61 =
     [assign_concat ''df'' [''df_1_5'', ''df_6_25'', ''df_26_100'', ''df_101_500'', ''df_501_''],
      display ''df'',
      display ''df'']"

text \<open>
  The simulation is the cells after the parameters, top to bottom; the notebook is the
  parameter cell and the simulation.
\<close>

definition simulation :: "'g stmt list" where
  "simulation =
     cell_54 @ cell_55 @ cell_56 @ cell_57 @ cell_58 @ cell_59 @ cell_60 @ cell_61"

definition notebook_with :: "int \<Rightarrow> 'g stmt list" where
  "notebook_with n = parameter_cell n @ simulation"

definition notebook :: "'g stmt list" where
  "notebook = cell_53 @ simulation"

text \<open>The notebook with the sample size and the matrix of cell 54 left open.\<close>

definition notebook_of :: "int \<Rightarrow> ndarray \<Rightarrow> 'g stmt list" where
  "notebook_of n R =
     parameter_cell n @ cell_54_with R @ cell_55 @ cell_56 @ cell_57 @ cell_58 @ cell_59 @
     cell_60 @ cell_61"

subsection \<open>A stand-in generator\<close>

text \<open>
  A deterministic generator that meets the contract, for running the cells on concrete
  kernels: its state counts the draws made so far; draw number \<open>j\<close> of the normal
  sampler is the mean shifted by \<open>j\<close>, draw number \<open>j\<close> of \<^verbatim>\<open>randint\<close> is
  \<open>low + j mod (high - low)\<close>. As numpy does, \<^verbatim>\<open>randint\<close> refuses \<open>low \<ge> high\<close> and both
  refuse a negative size.
\<close>

definition np_demo :: "nat np_random" where
  "np_demo =
     \<lparr>multivariate_normal = (\<lambda>g mean cov n.
        if n < 0 then Inl ValueError
        else Inr (map (\<lambda>i. map (\<lambda>m. m + real (g + i)) mean) [0..<nat n], g + nat n)),
      randint = (\<lambda>g low high n.
        if high \<le> low \<or> n < 0 then Inl ValueError
        else Inr (map (\<lambda>i. low + int (g + i) mod (high - low)) [0..<nat n], g + nat n))\<rparr>"

text \<open>A fresh kernel: nothing bound.\<close>

definition fresh :: "'g \<Rightarrow> 'g kernel" where
  "fresh g = \<lparr>globals = Map.empty, rng = g\<rparr>"

text \<open>
  A kernel that an earlier run of the notebook has left behind, reduced to what
  matters later: \<^verbatim>\<open>df_501_\<close> is still bound, to a frame of \<open>n\<close> rows.
\<close>

definition stale :: "nat \<Rightarrow> 'g \<Rightarrow> 'g kernel" where
  "stale n g =
     \<lparr>globals = [''df_501_'' \<mapsto> FrameV \<lparr>index = [0..<n], columns = []\<rparr>], rng = g\<rparr>"

subsection \<open>Notions for the claims and their proofs\<close>

text \<open>
  The kernel after the parameter cell, as the later cells find it: the sample size
  \<open>n\<close>, the zero mean vector and the four column names.
\<close>

definition params :: "'g kernel \<Rightarrow> int \<Rightarrow> bool" where
  "params k n \<longleftrightarrow>
     globals k ''num_samples'' = Some (IntV n) \<and>
     globals k ''mu'' = Some (VecV (np_repeat 0 4)) \<and>
     globals k ''names'' = Some (ListV zscore_names)"

text \<open>
  The frame a cohort cell builds from an array \<open>a\<close> of at least one row that the sampler
  returned: after the second and third statement (\<open>labelled\<close>), and after the firm sizes
  \<open>xs\<close> have been assigned into a frame (\<open>sized\<close>).
\<close>

definition labelled :: "ndarray \<Rightarrow> string \<Rightarrow> frame" where
  "labelled a l =
     set_column (from_array a zscore_names) ''cohort'' (replicate (length a) (StrC l))"

definition sized :: "frame \<Rightarrow> int list \<Rightarrow> frame" where
  "sized f xs = set_column f ''firm_size'' (map IntC xs)"

text \<open>
  The matrix and the bounds of \<^verbatim>\<open>randint\<close> in each of the five cohort cells, in cell order,
  and the generator calls one cell and a sequence of cells make with them: the normal
  sampler with the zero mean, then \<^verbatim>\<open>randint\<close>, each on the state the call before left.
\<close>

definition cohorts :: "(ndarray \<times> int \<times> int) list" where
  "cohorts = [(r_micro, 1, 5), (r_small, 6, 25), (r_medium, 26, 100), (r_large, 101, 500),
     (r_very_large, 501, 2000)]"

definition cohort_draw ::
  "'g np_random \<Rightarrow> int \<Rightarrow> ndarray \<times> int \<times> int \<Rightarrow> 'g \<Rightarrow> ((ndarray \<times> int list) \<times> 'g) option" where
  "cohort_draw np n c g =
     (case c of (R, l, h) \<Rightarrow>
      case multivariate_normal np g (np_repeat 0 4) R n of Inl e \<Rightarrow> None | Inr (a, g1) \<Rightarrow>
      case randint np g1 l h n of Inl e \<Rightarrow> None | Inr (xs, g2) \<Rightarrow> Some ((a, xs), g2))"

fun cohort_draws ::
  "'g np_random \<Rightarrow> int \<Rightarrow> (ndarray \<times> int \<times> int) list \<Rightarrow> 'g \<Rightarrow>
     ((ndarray \<times> int list) list \<times> 'g) option" where
  "cohort_draws np n [] g = Some ([], g)"
| "cohort_draws np n (c # cs) g =
     (case cohort_draw np n c g of None \<Rightarrow> None | Some (d, g1) \<Rightarrow>
      case cohort_draws np n cs g1 of None \<Rightarrow> None | Some (ds, g2) \<Rightarrow> Some (d # ds, g2))"

text \<open>
  The concatenation cell 61 computes when the five frames are as the cohort cells leave
  them on a kernel where \<^verbatim>\<open>df_501_\<close> was bound before: the fourth frame, \<^verbatim>\<open>df_101_500\<close>, has
  no firm sizes.
\<close>

definition dataset :: "ndarray \<Rightarrow> int list \<Rightarrow> ndarray \<Rightarrow> int list \<Rightarrow> ndarray \<Rightarrow> int list \<Rightarrow>
    ndarray \<Rightarrow> ndarray \<Rightarrow> int list \<Rightarrow> frame" where
  "dataset a1 x1 a2 x2 a3 x3 a4 a5 x5 =
     pd_concat [sized (labelled a1 ''micro'') x1, sized (labelled a2 ''large'') x2,
       sized (labelled a3 ''medium'') x3, labelled a4 ''large'',
       sized (labelled a5 ''very large'') x5]"

text \<open>
  Two more concrete kernels: one as cell 60 leaves it on two samples, the frame of the
  very large firms holding their sizes; and another kernel with a stale \<^verbatim>\<open>df_501_\<close> of
  two rows, and stale values of other names.
\<close>

definition after_cell_60 :: "nat kernel" where
  "after_cell_60 =
     \<lparr>globals = [''num_samples'' \<mapsto> IntV 2, ''mu'' \<mapsto> VecV (np_repeat 0 4),
        ''names'' \<mapsto> ListV zscore_names,
        ''df_501_'' \<mapsto> FrameV (sized (labelled [[0, 0, 0, 0], [1, 1, 1, 1]] ''very large'')
           [501, 1999])],
      rng = 0\<rparr>"

definition stale_other :: "nat kernel" where
  "stale_other =
     \<lparr>globals =
        [''df_501_'' \<mapsto> FrameV \<lparr>index = [7, 9], columns = [(''firm_size'', [IntC 1, IntC 2])]\<rparr>,
         ''r'' \<mapsto> IntV 3, ''df'' \<mapsto> IntV 4],
      rng = 0\<rparr>"


text \<open>
  A second stand-in generator: the first one where the mean is zero and the matrix one
  of the five, and a ValueError everywhere else.
\<close>

definition np_zero_mean_only :: "nat np_random" where
  "np_zero_mean_only =
     np_demo\<lparr>multivariate_normal := (\<lambda>g mean cov n.
        if mean = np_repeat 0 4 \<and> cov \<in> set (map fst cohorts)
        then multivariate_normal np_demo g mean cov n
        else Inl ValueError)\<rparr>"

text \<open>
  For the proofs: the kernels in which a draw reads the sample size \<open>n\<close>, the zero mean
  and one of the five matrices; a statement that, on such kernels, does the same with two
  generators and keeps the kernel such; and a statement that leaves a name as it is,
  whether it finishes or raises.
\<close>

definition drawn_as :: "int \<Rightarrow> 'g kernel \<Rightarrow> bool" where
  "drawn_as n k \<longleftrightarrow> params k n \<and> list_ex (\<lambda>c. globals k ''r'' = Some (ArrV (fst c))) cohorts"

definition insensitive :: "int \<Rightarrow> 'g np_random \<Rightarrow> 'g np_random \<Rightarrow> 'g stmt \<Rightarrow> bool" where
  "insensitive n np np' s \<longleftrightarrow>
     (\<forall>k. drawn_as n k \<longrightarrow> s np' k = s np k \<and> (\<forall>k'. s np k = Done k' \<longrightarrow> drawn_as n k'))"



section \<open>Running the cells\<close>

subsection \<open>Statements and cells, one at a time\<close>

lemma exec_append:
  "exec np (ss @ ts) k =
     (case exec np ss k of Done k' \<Rightarrow> exec np ts k' | Raised e k' \<Rightarrow> Raised e k')"
  by (induction ss arbitrary: k) (auto split: outcome.splits)

lemma square_matrices:
  "square 4 r_micro" "square 4 r_small" "square 4 r_medium" "square 4 r_large"
  "square 4 r_very_large"
  by (simp_all add: square_def r_micro_def r_small_def r_medium_def r_large_def
      r_very_large_def)


lemma contract_mvn:
  assumes "np_contract np" "square (length m) c" "0 \<le> n"
  shows "\<exists>a g'. multivariate_normal np g m c n = Inr (a, g') \<and> length a = nat n \<and>
    list_all (\<lambda>row. length row = length m) a"
  using assms unfolding np_contract_def by blast

lemma contract_randint:
  assumes "np_contract np" "l < h" "0 \<le> n"
  shows "\<exists>xs g'. randint np g l h n = Inr (xs, g') \<and> length xs = nat n \<and>
    list_all (\<lambda>x. l \<le> x \<and> x < h) xs"
  using assms unfolding np_contract_def by blast

lemma nrows_from_array [simp]: "nrows (from_array a cols) = length a"
  by (simp add: nrows_def from_array_def)

lemma nrows_set_column [simp]: "nrows (set_column f c vs) = nrows f"
  by (simp add: nrows_def set_column_def)

lemma nrows_labelled [simp]: "nrows (labelled a l) = length a"
  by (simp add: labelled_def)

lemma nrows_sized [simp]: "nrows (sized f xs) = nrows f"
  by (simp add: sized_def)

lemma length_zscore_names [simp]: "length zscore_names = 4"
  by (simp add: zscore_names_def)

lemma length_np_repeat [simp]: "length (np_repeat v n) = n"
  by (simp add: np_repeat_def)

lemma draw_frame_Done:
  assumes "params k n" "globals k ''r'' = Some (ArrV c)"
    "multivariate_normal np (rng k) (np_repeat 0 4) c n = Inr (a, g')"
    "list_all (\<lambda>row. length row = 4) a"
  shows "draw_frame x np k = Done (bind_var x (FrameV (from_array a zscore_names)) (k\<lparr>rng := g'\<rparr>))"
  using assms
  by (simp add: draw_frame_def params_def get_var_def DataFrame_def)

lemma loc_assign_str_Done:
  assumes "globals k x = Some (FrameV f)" "0 < nrows f"
  shows "loc_assign_str x c l np k =
           Done (bind_var x (FrameV (set_column f c (replicate (nrows f) (StrC l)))) k)"
  using assms by (simp add: loc_assign_str_def get_frame_def get_var_def loc_set_scalar_def)

lemma loc_assign_str_ValueError:
  assumes "globals k x = Some (FrameV f)" "nrows f = 0" "column f c = None"
  shows "loc_assign_str x c l np k = Raised ValueError k"
  using assms by (simp add: loc_assign_str_def get_frame_def get_var_def loc_set_scalar_def)

lemma loc_assign_randint_Done:
  assumes "globals k ''num_samples'' = Some (IntV n)" "randint np (rng k) l h n = Inr (xs, g')"
    "globals k x = Some (FrameV f)" "length xs = nrows f"
  shows "loc_assign_randint x c l h np k =
           Done (bind_var x (FrameV (set_column f c (map IntC xs))) (k\<lparr>rng := g'\<rparr>))"
  using assms
  by (simp add: loc_assign_randint_def get_frame_def get_var_def loc_set_array_def)

lemma loc_assign_randint_NameError:
  assumes "globals k ''num_samples'' = Some (IntV n)" "randint np (rng k) l h n = Inr (xs, g')"
    "globals k x = None"
  shows "loc_assign_randint x c l h np k = Raised (NameError x) (k\<lparr>rng := g'\<rparr>)"
  using assms
  by (simp add: loc_assign_randint_def get_frame_def get_var_def)

lemma exec_Done_append: "exec np ss k = Done k' \<Longrightarrow> exec np (ss @ ts) k = exec np ts k'"
  by (simp add: exec_append)

lemma exec_Raised_append: "exec np ss k = Raised e k' \<Longrightarrow> exec np (ss @ ts) k = Raised e k'"
  by (simp add: exec_append)

lemma parameter_cell_Done:
  "exec np (parameter_cell n) k =
     Done (k\<lparr>globals := (globals k)(''num_samples'' \<mapsto> IntV n,
       ''mu'' \<mapsto> VecV (np_repeat 0 4), ''names'' \<mapsto> ListV zscore_names)\<rparr>)"
  by (simp add: parameter_cell_def assign_def bind_var_def)

text \<open>The first three statements of a cohort cell.\<close>

lemma cohort_cell_draw:
  assumes np: "np_contract np" and p: "params k n" and n: "0 < n" and R: "square 4 R"
    and x: "x \<notin> {''num_samples'', ''mu'', ''names'', ''r''}"
    and c: "c = [assign ''r'' (ArrV R), draw_frame x, loc_assign_str x ''cohort'' lab]"
  shows "\<exists>a g1 k'.
    multivariate_normal np (rng k) (np_repeat 0 4) R n = Inr (a, g1) \<and>
    length a = nat n \<and> exec np c k = Done k' \<and> rng k' = g1 \<and>
    globals k' = (globals k)(''r'' \<mapsto> ArrV R, x \<mapsto> FrameV (labelled a lab))"
proof -
  from contract_mvn [OF np, of "np_repeat 0 4" R n "rng k"] R n
  obtain a g1 where a: "multivariate_normal np (rng k) (np_repeat 0 4) R n = Inr (a, g1)"
    "length a = nat n" "list_all (\<lambda>row. length row = 4) a"
    by auto
  let ?k1 = "bind_var ''r'' (ArrV R) k"
  have p1: "params ?k1 n" "globals ?k1 ''r'' = Some (ArrV R)" "rng ?k1 = rng k"
    using p by (simp_all add: params_def bind_var_def)
  have d: "draw_frame x np ?k1 =
      Done (bind_var x (FrameV (from_array a zscore_names)) (?k1\<lparr>rng := g1\<rparr>))"
    using draw_frame_Done [OF p1(1) p1(2), of np a g1 x] a p1(3) by simp
  let ?k2 = "bind_var x (FrameV (from_array a zscore_names)) (?k1\<lparr>rng := g1\<rparr>)"
  have l: "loc_assign_str x ''cohort'' lab np ?k2 =
      Done (bind_var x (FrameV (labelled a lab)) ?k2)"
    using loc_assign_str_Done [of ?k2 x "from_array a zscore_names" "''cohort''" lab np] a(2) n
    by (simp add: bind_var_def labelled_def)
  let ?k3 = "bind_var x (FrameV (labelled a lab)) ?k2"
  have "exec np c k = Done ?k3"
    by (simp add: c assign_def d l)
  moreover have "rng ?k3 = g1" by (simp add: bind_var_def)
  moreover have "globals ?k3 = (globals k)(''r'' \<mapsto> ArrV R, x \<mapsto> FrameV (labelled a lab))"
    by (simp add: bind_var_def)
  ultimately show ?thesis using a by blast
qed

text \<open>The last statement, the firm sizes, into a frame of the right height.\<close>

lemma cohort_cell_sizes:
  assumes np: "np_contract np" and ns: "globals k ''num_samples'' = Some (IntV n)"
    and n: "0 \<le> n" and lh: "l < h"
    and y: "globals k y = Some (FrameV f)" "nrows f = nat n"
  obtains xs g2 k' where
    "randint np (rng k) l h n = Inr (xs, g2)"
    "length xs = nat n" "list_all (\<lambda>v. l \<le> v \<and> v < h) xs"
    "exec np [loc_assign_randint y ''firm_size'' l h] k = Done k'"
    "rng k' = g2"
    "globals k' = (globals k)(y \<mapsto> FrameV (sized f xs))"
proof -
  from contract_randint [OF np lh n, of "rng k"]
  obtain xs g2 where xs: "randint np (rng k) l h n = Inr (xs, g2)" "length xs = nat n"
    "list_all (\<lambda>v. l \<le> v \<and> v < h) xs"
    by auto
  have "loc_assign_randint y ''firm_size'' l h np k =
      Done (bind_var y (FrameV (sized f xs)) (k\<lparr>rng := g2\<rparr>))"
    using loc_assign_randint_Done [OF ns xs(1) y(1)] xs(2) y(2) by (simp add: sized_def)
  then show thesis
    using xs that [of xs g2 "bind_var y (FrameV (sized f xs)) (k\<lparr>rng := g2\<rparr>)"]
    by (simp add: bind_var_def)
qed

lemma cohort_cell_sizes_unbound:
  assumes np: "np_contract np" and ns: "globals k ''num_samples'' = Some (IntV n)"
    and n: "0 \<le> n" and lh: "l < h" and y: "globals k y = None"
  shows "\<exists>k'. loc_assign_randint y ''firm_size'' l h np k = Raised (NameError y) k' \<and>
    globals k' = globals k"
proof -
  from contract_randint [OF np lh n, of "rng k"]
  obtain xs g2 where xs: "randint np (rng k) l h n = Inr (xs, g2)"
    by auto
  show ?thesis
    using loc_assign_randint_NameError [OF ns xs y] by simp
qed

text \<open>A whole cohort cell that assigns the sizes into its own frame.\<close>

lemma cohort_cell_own:
  assumes np: "np_contract np" and p: "params k n" and n: "0 < n" and R: "square 4 R"
    and lh: "l < h" and x: "x \<notin> {''num_samples'', ''mu'', ''names'', ''r''}"
    and c: "c = [assign ''r'' (ArrV R), draw_frame x, loc_assign_str x ''cohort'' lab,
       loc_assign_randint x ''firm_size'' l h]"
  shows "\<exists>a xs k'.
    cohort_draw np n (R, l, h) (rng k) = Some ((a, xs), rng k') \<and>
    length a = nat n \<and> length xs = nat n \<and> list_all (\<lambda>v. l \<le> v \<and> v < h) xs \<and>
    exec np c k = Done k' \<and>
    globals k' = (globals k)(''r'' \<mapsto> ArrV R, x \<mapsto> FrameV (sized (labelled a lab) xs))"
proof -
  from cohort_cell_draw [OF np p n R x refl, of lab]
  obtain a g1 k1 where a: "multivariate_normal np (rng k) (np_repeat 0 4) R n = Inr (a, g1)"
    "length a = nat n"
    and e1: "exec np [assign ''r'' (ArrV R), draw_frame x, loc_assign_str x ''cohort'' lab] k = Done k1"
    and k1: "rng k1 = g1" "globals k1 = (globals k)(''r'' \<mapsto> ArrV R, x \<mapsto> FrameV (labelled a lab))"
    by blast
  have ns: "globals k1 ''num_samples'' = Some (IntV n)"
    using p x by (auto simp add: k1 params_def)
  have fx: "globals k1 x = Some (FrameV (labelled a lab))" "nrows (labelled a lab) = nat n"
    by (simp_all add: k1 a)
  from n have n0: "0 \<le> n" by simp
  from cohort_cell_sizes [OF np ns n0 lh fx]
  obtain xs g2 k2 where xs: "randint np (rng k1) l h n = Inr (xs, g2)" "length xs = nat n"
    "list_all (\<lambda>v. l \<le> v \<and> v < h) xs"
    and e2: "exec np [loc_assign_randint x ''firm_size'' l h] k1 = Done k2"
    and k2: "rng k2 = g2" "globals k2 = (globals k1)(x \<mapsto> FrameV (sized (labelled a lab) xs))"
    by blast
  have "exec np ([assign ''r'' (ArrV R), draw_frame x, loc_assign_str x ''cohort'' lab] @
       [loc_assign_randint x ''firm_size'' l h]) k = Done k2"
    by (simp only: exec_Done_append [OF e1] e2)
  then have run: "exec np c k = Done k2"
    by (simp add: c)
  have g: "globals k2 = (globals k)(''r'' \<mapsto> ArrV R, x \<mapsto> FrameV (sized (labelled a lab) xs))"
    by (simp add: k2 k1)
  have d: "cohort_draw np n (R, l, h) (rng k) = Some ((a, xs), rng k2)"
    using a(1) xs(1) k1(1) k2(1) by (simp add: cohort_draw_def)
  from d a(2) xs(2,3) run g show ?thesis by blast
qed

lemma display_Done: "globals k x = Some (FrameV f) \<Longrightarrow> exec np [display x] k = Done k"
  by (simp add: display_def get_frame_def get_var_def)

lemma frame_names:
  "''df_1_5'' \<notin> {''num_samples'', ''mu'', ''names'', ''r''}"
  "''df_6_25'' \<notin> {''num_samples'', ''mu'', ''names'', ''r''}"
  "''df_26_100'' \<notin> {''num_samples'', ''mu'', ''names'', ''r''}"
  "''df_101_500'' \<notin> {''num_samples'', ''mu'', ''names'', ''r''}"
  "''df_501_'' \<notin> {''num_samples'', ''mu'', ''names'', ''r''}"
  by simp_all

lemma bounds: "(1::int) < 5" "(6::int) < 25" "(26::int) < 100" "(101::int) < 500"
  "(501::int) < 2000"
  by simp_all

lemma cell_54_eq: "cell_54_with r_micro = cell_54"
  by (simp add: cell_54_with_def cell_54_def)

text \<open>Cells 54 to 58, whatever the 4 by 4 matrix \<open>R\<close> of cell 54.\<close>

lemma cells_54_to_58:
  assumes np: "np_contract np" and p: "params k n" and n: "0 < n" and R: "square 4 R"
  obtains a1 x1 a2 x2 a3 x3 k' where
    "cohort_draws np n [(R, 1, 5), (r_small, 6, 25), (r_medium, 26, 100)] (rng k) =
       Some ([(a1, x1), (a2, x2), (a3, x3)], rng k')"
    "length a1 = nat n" "length a2 = nat n" "length a3 = nat n"
    "length x1 = nat n" "length x2 = nat n" "length x3 = nat n"
    "list_all (\<lambda>v. 1 \<le> v \<and> v < 5) x1" "list_all (\<lambda>v. 6 \<le> v \<and> v < 25) x2"
    "list_all (\<lambda>v. 26 \<le> v \<and> v < 100) x3"
    "exec np (cell_54_with R @ cell_55 @ cell_56 @ cell_57 @ cell_58) k = Done k'"
    "globals k' ''df_1_5'' = Some (FrameV (sized (labelled a1 ''micro'') x1))"
    "globals k' ''df_6_25'' = Some (FrameV (sized (labelled a2 ''large'') x2))"
    "globals k' ''df_26_100'' = Some (FrameV (sized (labelled a3 ''medium'') x3))"
    "\<And>y. y \<notin> {''r'', ''df_1_5'', ''df_6_25'', ''df_26_100''} \<Longrightarrow> globals k' y = globals k y"
proof -
  from cohort_cell_own [OF np p n R bounds(1) frame_names(1) cell_54_with_def]
  obtain a1 x1 k1 where
    d1: "cohort_draw np n (R, 1, 5) (rng k) = Some ((a1, x1), rng k1)"
    and l1: "length a1 = nat n" "length x1 = nat n" "list_all (\<lambda>v. 1 \<le> v \<and> v < 5) x1"
    and e1: "exec np (cell_54_with R) k = Done k1"
    and k1: "globals k1 = (globals k)(''r'' \<mapsto> ArrV R,
         ''df_1_5'' \<mapsto> FrameV (sized (labelled a1 ''micro'') x1))"
    by blast
  have e1': "exec np cell_55 k1 = Done k1"
    unfolding cell_55_def by (rule display_Done) (simp add: k1)
  have p1: "params k1 n" using p by (simp add: params_def k1)
  from cohort_cell_own [OF np p1 n square_matrices(2) bounds(2) frame_names(2) cell_56_def]
  obtain a2 x2 k2 where
    d2: "cohort_draw np n (r_small, 6, 25) (rng k1) = Some ((a2, x2), rng k2)"
    and l2: "length a2 = nat n" "length x2 = nat n" "list_all (\<lambda>v. 6 \<le> v \<and> v < 25) x2"
    and e2: "exec np cell_56 k1 = Done k2"
    and k2: "globals k2 = (globals k1)(''r'' \<mapsto> ArrV r_small,
         ''df_6_25'' \<mapsto> FrameV (sized (labelled a2 ''large'') x2))"
    by blast
  have e2': "exec np cell_57 k2 = Done k2"
    unfolding cell_57_def by (rule display_Done) (simp add: k2)
  have p2: "params k2 n" using p1 by (simp add: params_def k2)
  from cohort_cell_own [OF np p2 n square_matrices(3) bounds(3) frame_names(3) cell_58_def]
  obtain a3 x3 k3 where
    d3: "cohort_draw np n (r_medium, 26, 100) (rng k2) = Some ((a3, x3), rng k3)"
    and l3: "length a3 = nat n" "length x3 = nat n" "list_all (\<lambda>v. 26 \<le> v \<and> v < 100) x3"
    and e3: "exec np cell_58 k2 = Done k3"
    and k3: "globals k3 = (globals k2)(''r'' \<mapsto> ArrV r_medium,
         ''df_26_100'' \<mapsto> FrameV (sized (labelled a3 ''medium'') x3))"
    by blast
  have run: "exec np (cell_54_with R @ cell_55 @ cell_56 @ cell_57 @ cell_58) k = Done k3"
    by (simp only: exec_Done_append [OF e1] exec_Done_append [OF e1']
        exec_Done_append [OF e2] exec_Done_append [OF e2'] e3)
  have draws: "cohort_draws np n [(R, 1, 5), (r_small, 6, 25), (r_medium, 26, 100)] (rng k) =
      Some ([(a1, x1), (a2, x2), (a3, x3)], rng k3)"
    using d1 d2 d3 by simp
  show thesis
  proof (rule that [OF draws l1(1) l2(1) l3(1) l1(2) l2(2) l3(2) l1(3) l2(3) l3(3) run])
    show "globals k3 ''df_1_5'' = Some (FrameV (sized (labelled a1 ''micro'') x1))"
      by (simp add: k3 k2 k1)
    show "globals k3 ''df_6_25'' = Some (FrameV (sized (labelled a2 ''large'') x2))"
      by (simp add: k3 k2 k1)
    show "globals k3 ''df_26_100'' = Some (FrameV (sized (labelled a3 ''medium'') x3))"
      by (simp add: k3 k2 k1)
    show "\<And>y. y \<notin> {''r'', ''df_1_5'', ''df_6_25'', ''df_26_100''} \<Longrightarrow> globals k3 y = globals k y"
      by (simp add: k3 k2 k1)
  qed
qed

text \<open>The stand-in generator meets the contract.\<close>

lemma np_demo_contract: "np_contract np_demo"
  unfolding np_contract_def
proof (intro conjI allI impI)
  fix g :: nat and mean :: "real list" and cov :: ndarray and n :: int
  assume "square (length mean) cov \<and> 0 \<le> n"
  then show "\<exists>a g'. multivariate_normal np_demo g mean cov n = Inr (a, g') \<and>
      length a = nat n \<and> list_all (\<lambda>row. length row = length mean) a"
    by (simp add: np_demo_def list_all_iff)
next
  fix g :: nat and low high n :: int
  assume a: "low < high \<and> 0 \<le> n"
  have "low \<le> low + j mod (high - low) \<and> low + j mod (high - low) < high" for j
  proof -
    have "0 \<le> j mod (high - low)" "j mod (high - low) < high - low"
      using a by simp_all
    then show ?thesis by linarith
  qed
  with a show "\<exists>xs g'. randint np_demo g low high n = Inr (xs, g') \<and>
      length xs = nat n \<and> list_all (\<lambda>x. low \<le> x \<and> x < high) xs"
    by (simp add: np_demo_def list_all_iff)
next
  fix g :: nat and mean :: "real list" and cov :: ndarray and n :: int
  assume "n < 0"
  then show "multivariate_normal np_demo g mean cov n = Inl ValueError"
    by (simp add: np_demo_def)
qed

subsection \<open>The frames of the cohort cells and their concatenation\<close>

lemma map_of_tabulate:
  "map_of (map (\<lambda>c. (c, f c)) cs) c = (if c \<in> set cs then Some (f c) else None)"
  by (induction cs) auto

lemma column_pd_concat:
  "column (pd_concat fs) c =
     (if c \<in> set (union_columns fs) then Some (concat_column fs c) else None)"
  by (simp add: column_def pd_concat_def map_of_tabulate)

lemma nrows_pd_concat: "nrows (pd_concat fs) = sum_list (map nrows fs)"
  by (induction fs) (simp_all add: nrows_def pd_concat_def)

lemma columns_from_array:
  "columns (from_array a zscore_names) =
     [(''job_sat'', map (\<lambda>row. FloatC (row ! 0)) a), (''int_qui'', map (\<lambda>row. FloatC (row ! 1)) a),
      (''age'', map (\<lambda>row. FloatC (row ! 2)) a), (''org_tnr'', map (\<lambda>row. FloatC (row ! 3)) a)]"
  by (simp add: from_array_def zscore_names_def upt_rec [of _ 4] upt_rec [of _ "Suc _"]
      numeral_eq_Suc del: upt_Suc)

lemma columns_labelled:
  "columns (labelled a l) =
     [(''job_sat'', map (\<lambda>row. FloatC (row ! 0)) a), (''int_qui'', map (\<lambda>row. FloatC (row ! 1)) a),
      (''age'', map (\<lambda>row. FloatC (row ! 2)) a), (''org_tnr'', map (\<lambda>row. FloatC (row ! 3)) a),
      (''cohort'', replicate (length a) (StrC l))]"
  by (simp add: labelled_def loc_set_scalar_def set_column_def columns_from_array)

lemma columns_sized_labelled:
  "columns (sized (labelled a l) xs) =
     [(''job_sat'', map (\<lambda>row. FloatC (row ! 0)) a), (''int_qui'', map (\<lambda>row. FloatC (row ! 1)) a),
      (''age'', map (\<lambda>row. FloatC (row ! 2)) a), (''org_tnr'', map (\<lambda>row. FloatC (row ! 3)) a),
      (''cohort'', replicate (length a) (StrC l)), (''firm_size'', map IntC xs)]"
  by (simp add: sized_def set_column_def columns_labelled)

lemma column_labelled:
  "column (labelled a l) c = map_of (columns (labelled a l)) c"
  "column (sized (labelled a l) xs) c = map_of (columns (sized (labelled a l) xs)) c"
  by (simp_all add: column_def)



lemma union_columns_dataset:
  "union_columns [sized (labelled a1 l1) x1, sized (labelled a2 l2) x2,
       sized (labelled a3 l3) x3, labelled a4 l4, sized (labelled a5 l5) x5] =
     zscore_names @ [''cohort'', ''firm_size'']"
  by (simp add: union_columns_def columns_sized_labelled columns_labelled zscore_names_def)

lemma nrows_dataset:
  "nrows (dataset a1 x1 a2 x2 a3 x3 a4 a5 x5) =
     length a1 + length a2 + length a3 + length a4 + length a5"
  by (simp add: dataset_def nrows_pd_concat)


lemma firm_size_dataset:
  "column (dataset a1 x1 a2 x2 a3 x3 a4 a5 x5) ''firm_size'' =
     Some (map (\<lambda>x. FloatC (of_int x)) x1 @ map (\<lambda>x. FloatC (of_int x)) x2 @
       map (\<lambda>x. FloatC (of_int x)) x3 @ replicate (length a4) NaN @
       map (\<lambda>x. FloatC (of_int x)) x5)"
  by (simp add: dataset_def column_pd_concat union_columns_dataset concat_column_def
      column_or_nan_def column_labelled columns_sized_labelled columns_labelled zscore_names_def
      comp_def)

lemma cohort_dataset:
  "column (dataset a1 x1 a2 x2 a3 x3 a4 a5 x5) ''cohort'' =
     Some (replicate (length a1) (StrC ''micro'') @ replicate (length a2) (StrC ''large'') @
       replicate (length a3) (StrC ''medium'') @ replicate (length a4) (StrC ''large'') @
       replicate (length a5) (StrC ''very large''))"
  by (simp add: dataset_def column_pd_concat union_columns_dataset concat_column_def
      column_or_nan_def column_labelled columns_sized_labelled columns_labelled zscore_names_def)


subsection \<open>Runs on a kernel with a frame bound to the name of the fifth cohort\<close>

text \<open>Cell 59 on a kernel in which \<^verbatim>\<open>df_501_\<close> is bound to a frame of the right height.\<close>

lemma cell_59_stale:
  assumes np: "np_contract np" and p: "params k n" and n: "0 < n"
    and st: "globals k ''df_501_'' = Some (FrameV f0)" "nrows f0 = nat n"
  shows "\<exists>a xs k'.
    cohort_draw np n (r_large, 101, 500) (rng k) = Some ((a, xs), rng k') \<and>
    length a = nat n \<and> length xs = nat n \<and> list_all (\<lambda>v. 101 \<le> v \<and> v < 500) xs \<and>
    exec np cell_59 k = Done k' \<and>
    globals k' = (globals k)(''r'' \<mapsto> ArrV r_large,
      ''df_101_500'' \<mapsto> FrameV (labelled a ''large''), ''df_501_'' \<mapsto> FrameV (sized f0 xs))"
proof -
  have t3: "take 3 cell_59 = [assign ''r'' (ArrV r_large), draw_frame ''df_101_500'',
      loc_assign_str ''df_101_500'' ''cohort'' ''large'']"
    by (simp add: cell_59_def)
  from cohort_cell_draw [OF np p n square_matrices(4) frame_names(4) t3]
  obtain a g1 k1 where a: "multivariate_normal np (rng k) (np_repeat 0 4) r_large n = Inr (a, g1)"
    "length a = nat n"
    and e1: "exec np (take 3 cell_59) k = Done k1"
    and k1: "rng k1 = g1" "globals k1 = (globals k)(''r'' \<mapsto> ArrV r_large,
      ''df_101_500'' \<mapsto> FrameV (labelled a ''large''))"
    by blast
  have ns: "globals k1 ''num_samples'' = Some (IntV n)"
    using p by (simp add: k1 params_def)
  have fy: "globals k1 ''df_501_'' = Some (FrameV f0)"
    using st by (simp add: k1)
  from n have n0: "0 \<le> n" by simp
  from cohort_cell_sizes [OF np ns n0 bounds(4) fy st(2)]
  obtain xs g2 k2 where xs: "randint np (rng k1) 101 500 n = Inr (xs, g2)" "length xs = nat n"
    "list_all (\<lambda>v. 101 \<le> v \<and> v < 500) xs"
    and e2: "exec np [loc_assign_randint ''df_501_'' ''firm_size'' 101 500] k1 = Done k2"
    and k2: "rng k2 = g2" "globals k2 = (globals k1)(''df_501_'' \<mapsto> FrameV (sized f0 xs))"
    by blast
  have "cell_59 = take 3 cell_59 @ [loc_assign_randint ''df_501_'' ''firm_size'' 101 500]"
    by (simp add: cell_59_def)
  then have "exec np cell_59 k =
      exec np (take 3 cell_59 @ [loc_assign_randint ''df_501_'' ''firm_size'' 101 500]) k"
    by (rule arg_cong [where f = "\<lambda>c. exec np c k"])
  also have "\<dots> = Done k2"
    by (simp only: exec_Done_append [OF e1] e2)
  finally have run: "exec np cell_59 k = Done k2" .
  have g: "globals k2 = (globals k)(''r'' \<mapsto> ArrV r_large,
      ''df_101_500'' \<mapsto> FrameV (labelled a ''large''), ''df_501_'' \<mapsto> FrameV (sized f0 xs))"
    by (simp add: k2 k1)
  have d: "cohort_draw np n (r_large, 101, 500) (rng k) = Some ((a, xs), rng k2)"
    using a(1) xs(1) k1(1) k2(1) by (simp add: cohort_draw_def)
  from d a(2) xs(2,3) run g show ?thesis by blast
qed

lemma cell_61_Done:
  assumes "globals k ''df_1_5'' = Some (FrameV f1)" "globals k ''df_6_25'' = Some (FrameV f2)"
    "globals k ''df_26_100'' = Some (FrameV f3)" "globals k ''df_101_500'' = Some (FrameV f4)"
    "globals k ''df_501_'' = Some (FrameV f5)"
  shows "exec np cell_61 k = Done (bind_var ''df'' (FrameV (pd_concat [f1, f2, f3, f4, f5])) k)"
  using assms
  by (simp add: cell_61_def assign_concat_def call_concat_def display_def get_frame_def
      get_var_def bind_var_def)

lemma cohort_draws_append:
  "cohort_draws np n (cs @ ds) g =
     (case cohort_draws np n cs g of None \<Rightarrow> None | Some (xs, g1) \<Rightarrow>
      case cohort_draws np n ds g1 of None \<Rightarrow> None | Some (ys, g2) \<Rightarrow> Some (xs @ ys, g2))"
  by (induction cs arbitrary: g) (auto split: option.splits)

text \<open>
  The whole run on such a kernel, whatever the 4 by 4 matrix \<open>R\<close> of cell 54: every cell
  finishes, and the frames bound at the end are built from the ten generator calls of
  \<open>cohort_draws\<close>.
\<close>

lemma notebook_of_stale:
  assumes np: "np_contract np" and n: "0 < n" and R: "square 4 R"
    and st: "globals k ''df_501_'' = Some (FrameV f0)" "nrows f0 = nat n"
  shows "\<exists>a1 x1 a2 x2 a3 x3 a4 x4 a5 x5 k'.
    cohort_draws np n ((R, 1, 5) # tl cohorts) (rng k) =
      Some ([(a1, x1), (a2, x2), (a3, x3), (a4, x4), (a5, x5)], rng k') \<and>
    list_all (\<lambda>a. length a = nat n) [a1, a2, a3, a4, a5] \<and>
    list_all (\<lambda>x. length x = nat n) [x1, x2, x3, x4, x5] \<and>
    list_all (\<lambda>v. 1 \<le> v \<and> v < 5) x1 \<and> list_all (\<lambda>v. 6 \<le> v \<and> v < 25) x2 \<and>
    list_all (\<lambda>v. 26 \<le> v \<and> v < 100) x3 \<and> list_all (\<lambda>v. 101 \<le> v \<and> v < 500) x4 \<and>
    list_all (\<lambda>v. 501 \<le> v \<and> v < 2000) x5 \<and>
    exec np (notebook_of n R) k = Done k' \<and>
    globals k' ''df_1_5'' = Some (FrameV (sized (labelled a1 ''micro'') x1)) \<and>
    globals k' ''df_6_25'' = Some (FrameV (sized (labelled a2 ''large'') x2)) \<and>
    globals k' ''df_26_100'' = Some (FrameV (sized (labelled a3 ''medium'') x3)) \<and>
    globals k' ''df_101_500'' = Some (FrameV (labelled a4 ''large'')) \<and>
    globals k' ''df_501_'' = Some (FrameV (sized (labelled a5 ''very large'') x5)) \<and>
    globals k' ''df'' = Some (FrameV (dataset a1 x1 a2 x2 a3 x3 a4 a5 x5))"
proof -
  let ?k0 = "k\<lparr>globals := (globals k)(''num_samples'' \<mapsto> IntV n,
       ''mu'' \<mapsto> VecV (np_repeat 0 4), ''names'' \<mapsto> ListV zscore_names)\<rparr>"
  have e0: "exec np (parameter_cell n) k = Done ?k0"
    by (rule parameter_cell_Done)
  have p0: "params ?k0 n"
    by (simp add: params_def)
  have st0: "globals ?k0 ''df_501_'' = Some (FrameV f0)"
    using st by simp
  have g0: "rng ?k0 = rng k" by simp
  from cells_54_to_58 [OF np p0 n R]
  obtain a1 x1 a2 x2 a3 x3 k3 where
    d3: "cohort_draws np n [(R, 1, 5), (r_small, 6, 25), (r_medium, 26, 100)] (rng ?k0) =
      Some ([(a1, x1), (a2, x2), (a3, x3)], rng k3)"
    and la: "length a1 = nat n" "length a2 = nat n" "length a3 = nat n"
    and lx: "length x1 = nat n" "length x2 = nat n" "length x3 = nat n"
    and rx: "list_all (\<lambda>v. 1 \<le> v \<and> v < 5) x1" "list_all (\<lambda>v. 6 \<le> v \<and> v < 25) x2"
      "list_all (\<lambda>v. 26 \<le> v \<and> v < 100) x3"
    and e3: "exec np (cell_54_with R @ cell_55 @ cell_56 @ cell_57 @ cell_58) ?k0 = Done k3"
    and f3: "globals k3 ''df_1_5'' = Some (FrameV (sized (labelled a1 ''micro'') x1))"
      "globals k3 ''df_6_25'' = Some (FrameV (sized (labelled a2 ''large'') x2))"
      "globals k3 ''df_26_100'' = Some (FrameV (sized (labelled a3 ''medium'') x3))"
    and o3: "\<And>y. y \<notin> {''r'', ''df_1_5'', ''df_6_25'', ''df_26_100''} \<Longrightarrow>
      globals k3 y = globals ?k0 y"
    by blast
  have p3: "params k3 n" by (simp add: params_def o3)
  have st3: "globals k3 ''df_501_'' = Some (FrameV f0)" using st by (simp add: o3)
  from cell_59_stale [OF np p3 n st3 st(2)]
  obtain a4 x4 k4 where
    d4: "cohort_draw np n (r_large, 101, 500) (rng k3) = Some ((a4, x4), rng k4)"
    and l4: "length a4 = nat n" "length x4 = nat n" "list_all (\<lambda>v. 101 \<le> v \<and> v < 500) x4"
    and e4: "exec np cell_59 k3 = Done k4"
    and k4: "globals k4 = (globals k3)(''r'' \<mapsto> ArrV r_large,
      ''df_101_500'' \<mapsto> FrameV (labelled a4 ''large''), ''df_501_'' \<mapsto> FrameV (sized f0 x4))"
    by blast
  have p4: "params k4 n" using p3 by (simp add: params_def k4)
  from cohort_cell_own [OF np p4 n square_matrices(5) bounds(5) frame_names(5) cell_60_def]
  obtain a5 x5 k5 where
    d5: "cohort_draw np n (r_very_large, 501, 2000) (rng k4) = Some ((a5, x5), rng k5)"
    and l5: "length a5 = nat n" "length x5 = nat n" "list_all (\<lambda>v. 501 \<le> v \<and> v < 2000) x5"
    and e5: "exec np cell_60 k4 = Done k5"
    and k5: "globals k5 = (globals k4)(''r'' \<mapsto> ArrV r_very_large,
      ''df_501_'' \<mapsto> FrameV (sized (labelled a5 ''very large'') x5))"
    by blast
  have f5: "globals k5 ''df_1_5'' = Some (FrameV (sized (labelled a1 ''micro'') x1))"
    "globals k5 ''df_6_25'' = Some (FrameV (sized (labelled a2 ''large'') x2))"
    "globals k5 ''df_26_100'' = Some (FrameV (sized (labelled a3 ''medium'') x3))"
    "globals k5 ''df_101_500'' = Some (FrameV (labelled a4 ''large''))"
    "globals k5 ''df_501_'' = Some (FrameV (sized (labelled a5 ''very large'') x5))"
    by (simp_all add: k5 k4 f3)
  let ?k6 = "bind_var ''df'' (FrameV (dataset a1 x1 a2 x2 a3 x3 a4 a5 x5)) k5"
  have e6: "exec np cell_61 k5 = Done ?k6"
    unfolding dataset_def by (rule cell_61_Done [OF f5])
  have "notebook_of n R = parameter_cell n @
      (cell_54_with R @ cell_55 @ cell_56 @ cell_57 @ cell_58) @ cell_59 @ cell_60 @ cell_61"
    by (simp add: notebook_of_def)
  then have "exec np (notebook_of n R) k =
      exec np (parameter_cell n @
        (cell_54_with R @ cell_55 @ cell_56 @ cell_57 @ cell_58) @ cell_59 @ cell_60 @ cell_61) k"
    by (rule arg_cong [where f = "\<lambda>c. exec np c k"])
  also have "\<dots> = Done ?k6"
    by (simp only: exec_Done_append [OF e0] exec_Done_append [OF e3] exec_Done_append [OF e4]
        exec_Done_append [OF e5] e6)
  finally have run: "exec np (notebook_of n R) k = Done ?k6" .
  have d3': "cohort_draws np n [(R, 1, 5), (r_small, 6, 25), (r_medium, 26, 100)] (rng k) =
      Some ([(a1, x1), (a2, x2), (a3, x3)], rng k3)"
    using d3 by (simp only: g0)
  have d45: "cohort_draws np n [(r_large, 101, 500), (r_very_large, 501, 2000)] (rng k3) =
      Some ([(a4, x4), (a5, x5)], rng k5)"
    using d4 d5 by simp
  have "(R, 1, 5) # tl cohorts = [(R, 1, 5), (r_small, 6, 25), (r_medium, 26, 100)] @
      [(r_large, 101, 500), (r_very_large, 501, 2000)]"
    by (simp add: cohorts_def)
  then have "cohort_draws np n ((R, 1, 5) # tl cohorts) (rng k) =
      cohort_draws np n ([(R, 1, 5), (r_small, 6, 25), (r_medium, 26, 100)] @
        [(r_large, 101, 500), (r_very_large, 501, 2000)]) (rng k)"
    by (rule arg_cong [where f = "\<lambda>c. cohort_draws np n c (rng k)"])
  also have "\<dots> = Some ([(a1, x1), (a2, x2), (a3, x3)] @ [(a4, x4), (a5, x5)], rng k5)"
    by (simp only: cohort_draws_append d3' d45 option.case prod.case)
  also have "\<dots> = Some ([(a1, x1), (a2, x2), (a3, x3), (a4, x4), (a5, x5)], rng ?k6)"
    by (simp add: bind_var_def)
  finally have d: "cohort_draws np n ((R, 1, 5) # tl cohorts) (rng k) =
      Some ([(a1, x1), (a2, x2), (a3, x3), (a4, x4), (a5, x5)], rng ?k6)" .
  have f6: "globals ?k6 ''df_1_5'' = Some (FrameV (sized (labelled a1 ''micro'') x1))"
    "globals ?k6 ''df_6_25'' = Some (FrameV (sized (labelled a2 ''large'') x2))"
    "globals ?k6 ''df_26_100'' = Some (FrameV (sized (labelled a3 ''medium'') x3))"
    "globals ?k6 ''df_101_500'' = Some (FrameV (labelled a4 ''large''))"
    "globals ?k6 ''df_501_'' = Some (FrameV (sized (labelled a5 ''very large'') x5))"
    "globals ?k6 ''df'' = Some (FrameV (dataset a1 x1 a2 x2 a3 x3 a4 a5 x5))"
    using f5 by (simp_all add: bind_var_def)
  have ls: "list_all (\<lambda>a. length a = nat n) [a1, a2, a3, a4, a5]"
    "list_all (\<lambda>x. length x = nat n) [x1, x2, x3, x4, x5]"
    using la lx l4 l5 by simp_all
  from d ls rx l4(3) l5(3) run f6 show ?thesis by blast
qed

lemma notebook_of_eq: "notebook_of n r_micro = notebook_with n"
  by (simp add: notebook_of_def notebook_with_def simulation_def cell_54_eq)

text \<open>The notebook's own cells on such a kernel.\<close>

lemma notebook_stale:
  assumes np: "np_contract np" and n: "0 < n"
    and st: "globals k ''df_501_'' = Some (FrameV f0)" "nrows f0 = nat n"
  shows "\<exists>a1 x1 a2 x2 a3 x3 a4 x4 a5 x5 k'.
    cohort_draws np n cohorts (rng k) =
      Some ([(a1, x1), (a2, x2), (a3, x3), (a4, x4), (a5, x5)], rng k') \<and>
    list_all (\<lambda>a. length a = nat n) [a1, a2, a3, a4, a5] \<and>
    list_all (\<lambda>x. length x = nat n) [x1, x2, x3, x4, x5] \<and>
    list_all (\<lambda>v. 1 \<le> v \<and> v < 5) x1 \<and> list_all (\<lambda>v. 6 \<le> v \<and> v < 25) x2 \<and>
    list_all (\<lambda>v. 26 \<le> v \<and> v < 100) x3 \<and> list_all (\<lambda>v. 101 \<le> v \<and> v < 500) x4 \<and>
    list_all (\<lambda>v. 501 \<le> v \<and> v < 2000) x5 \<and>
    exec np (notebook_with n) k = Done k' \<and>
    globals k' ''df_1_5'' = Some (FrameV (sized (labelled a1 ''micro'') x1)) \<and>
    globals k' ''df_6_25'' = Some (FrameV (sized (labelled a2 ''large'') x2)) \<and>
    globals k' ''df_26_100'' = Some (FrameV (sized (labelled a3 ''medium'') x3)) \<and>
    globals k' ''df_101_500'' = Some (FrameV (labelled a4 ''large'')) \<and>
    globals k' ''df_501_'' = Some (FrameV (sized (labelled a5 ''very large'') x5)) \<and>
    globals k' ''df'' = Some (FrameV (dataset a1 x1 a2 x2 a3 x3 a4 a5 x5))"
proof -
  have c: "(r_micro, 1, 5) # tl cohorts = cohorts"
    by (simp add: cohorts_def)
  from notebook_of_stale [OF np n square_matrices(1) st] show ?thesis
    unfolding notebook_of_eq c .
qed

lemma notebook_eq: "notebook = notebook_with 1000"
  by (simp add: notebook_def notebook_with_def cell_53_def)

subsection \<open>Two generators that agree on the calls made\<close>

lemma exec_insensitive:
  assumes "list_all (insensitive n np np') ss" and "drawn_as n k"
  shows "exec np' ss k = exec np ss k"
  using assms
proof (induction ss arbitrary: k)
  case Nil
  then show ?case by simp
next
  case (Cons s ss)
  then have s: "s np' k = s np k" and i: "\<And>k'. s np k = Done k' \<Longrightarrow> drawn_as n k'"
    by (simp_all add: insensitive_def)
  show ?case
  proof (cases "s np k")
    case (Done k')
    with Cons s i show ?thesis by simp
  next
    case (Raised e k')
    with s show ?thesis by simp
  qed
qed

lemma drawn_as_bind:
  "drawn_as n k \<Longrightarrow> x \<notin> {''num_samples'', ''mu'', ''names'', ''r''} \<Longrightarrow>
     drawn_as n (bind_var x v (k\<lparr>rng := g\<rparr>))"
  "drawn_as n k \<Longrightarrow> x \<notin> {''num_samples'', ''mu'', ''names'', ''r''} \<Longrightarrow>
     drawn_as n (bind_var x v k)"
  by (auto simp add: drawn_as_def params_def bind_var_def list_ex_iff)

lemma insensitive_assign_r:
  "list_ex (\<lambda>c. fst c = R) cohorts \<Longrightarrow> insensitive n np np' (assign ''r'' (ArrV R))"
  by (auto simp add: insensitive_def assign_def drawn_as_def params_def bind_var_def list_ex_iff)

lemma insensitive_draw_frame:
  assumes a: "\<And>g R. R \<in> set (map fst cohorts) \<Longrightarrow>
      multivariate_normal np' g (np_repeat 0 4) R n = multivariate_normal np g (np_repeat 0 4) R n"
    and x: "x \<notin> {''num_samples'', ''mu'', ''names'', ''r''}"
  shows "insensitive n np np' (draw_frame x)"
  unfolding insensitive_def
proof (intro allI impI conjI)
  fix k :: "'a kernel"
  assume d: "drawn_as n k"
  then obtain R where R: "R \<in> set (map fst cohorts)" "globals k ''r'' = Some (ArrV R)"
    by (auto simp add: drawn_as_def list_ex_iff)
  from d have p: "params k n" by (simp add: drawn_as_def)
  from p R a [OF R(1), of "rng k"] show "draw_frame x np' k = draw_frame x np k"
    by (simp add: draw_frame_def params_def get_var_def)
  fix k'
  assume "draw_frame x np k = Done k'"
  then obtain f g where "k' = bind_var x (FrameV f) (k\<lparr>rng := g\<rparr>)"
    by (auto simp add: draw_frame_def Let_def split: sum.splits prod.splits)
  with d x show "drawn_as n k'"
    by (simp add: drawn_as_bind)
qed

lemma insensitive_loc_assign_str:
  assumes x: "x \<notin> {''num_samples'', ''mu'', ''names'', ''r''}"
  shows "insensitive n np np' (loc_assign_str x c l)"
  using x
  by (auto simp add: insensitive_def loc_assign_str_def drawn_as_bind split: sum.splits)

lemma insensitive_loc_assign_randint:
  assumes r: "randint np' = randint np"
    and x: "x \<notin> {''num_samples'', ''mu'', ''names'', ''r''}"
  shows "insensitive n np np' (loc_assign_randint x c l h)"
  unfolding insensitive_def
proof (intro allI impI conjI)
  fix k :: "'a kernel"
  assume d: "drawn_as n k"
  have "call_randint np' g l h v = call_randint np g l h v" for g v
    by (cases v) (simp_all add: r)
  then show "loc_assign_randint x c l h np' k = loc_assign_randint x c l h np k"
    by (simp only: loc_assign_randint_def)
  fix k'
  assume "loc_assign_randint x c l h np k = Done k'"
  then obtain f g where "k' = bind_var x (FrameV f) (k\<lparr>rng := g\<rparr>)"
    by (auto simp add: loc_assign_randint_def Let_def split: sum.splits prod.splits)
  with d x show "drawn_as n k'"
    by (simp add: drawn_as_bind)
qed

lemma insensitive_display: "insensitive n np np' (display x)"
  by (auto simp add: insensitive_def display_def split: sum.splits)

lemma insensitive_assign_concat:
  assumes x: "x \<notin> {''num_samples'', ''mu'', ''names'', ''r''}"
  shows "insensitive n np np' (assign_concat x ys)"
  using x
  by (auto simp add: insensitive_def assign_concat_def drawn_as_bind split: sum.splits)

text \<open>
  The run of the notebook is the same with two generators that agree on the calls with
  the zero mean and one of the five matrices, and on \<^verbatim>\<open>randint\<close>.
\<close>

lemma run_insensitive:
  assumes a: "\<And>g R. R \<in> set (map fst cohorts) \<Longrightarrow>
      multivariate_normal np' g (np_repeat 0 4) R n = multivariate_normal np g (np_repeat 0 4) R n"
    and r: "randint np' = randint np"
  shows "exec np' (notebook_with n) k = exec np (notebook_with n) k"
proof -
  let ?k0 = "k\<lparr>globals := (globals k)(''num_samples'' \<mapsto> IntV n,
       ''mu'' \<mapsto> VecV (np_repeat 0 4), ''names'' \<mapsto> ListV zscore_names)\<rparr>"
  let ?k1 = "bind_var ''r'' (ArrV r_micro) ?k0"
  have d: "drawn_as n ?k1"
    by (simp add: drawn_as_def params_def bind_var_def cohorts_def)
  have df: "insensitive n np np' (draw_frame x)"
    if "x \<notin> {''num_samples'', ''mu'', ''names'', ''r''}" for x
    using a that by (rule insensitive_draw_frame)
  have rest: "list_all (insensitive n np np') (tl simulation)"
    by (simp add: simulation_def cell_54_def cell_55_def cell_56_def cell_57_def cell_58_def
        cell_59_def cell_60_def cell_61_def insensitive_assign_r df
        insensitive_loc_assign_str insensitive_loc_assign_randint [OF r] insensitive_display
        insensitive_assign_concat cohorts_def)
  have s: "simulation = assign ''r'' (ArrV r_micro) # tl simulation"
    by (simp add: simulation_def cell_54_def)
  have run: "exec m (notebook_with n) k = exec m (tl simulation) ?k1" for m :: "'a np_random"
  proof -
    have "exec m (notebook_with n) k = exec m simulation ?k0"
      unfolding notebook_with_def by (rule exec_Done_append [OF parameter_cell_Done])
    also have "\<dots> = exec m (assign ''r'' (ArrV r_micro) # tl simulation) ?k0"
      using s by (rule arg_cong [where f = "\<lambda>c. exec m c ?k0"])
    also have "\<dots> = exec m (tl simulation) ?k1"
      by (simp add: assign_def)
    finally show ?thesis .
  qed
  show ?thesis
    by (simp only: run exec_insensitive [OF rest d])
qed

subsection \<open>What a raising run leaves\<close>











text \<open>
  With no sample the frame of cell 54 has no rows, and the assignment of its label is
  refused.
\<close>

lemma zero_size_raises:
  assumes np: "np_contract np"
  shows "\<exists>k'. exec np (notebook_with 0) k = Raised ValueError k'"
proof -
  from contract_mvn [OF np, of "np_repeat 0 4" r_micro 0 "rng k"] square_matrices(1)
  obtain a g' where "multivariate_normal np (rng k) (np_repeat 0 4) r_micro 0 = Inr (a, g')"
    "length a = nat 0"
    by auto
  then have m: "multivariate_normal np (rng k) (np_repeat 0 4) r_micro 0 = Inr ([], g')"
    by simp
  let ?k0 = "k\<lparr>globals := (globals k)(''num_samples'' \<mapsto> IntV 0,
       ''mu'' \<mapsto> VecV (np_repeat 0 4), ''names'' \<mapsto> ListV zscore_names)\<rparr>"
  let ?k1 = "bind_var ''r'' (ArrV r_micro) ?k0"
  let ?k2 = "bind_var ''df_1_5'' (FrameV (from_array [] zscore_names)) (?k1\<lparr>rng := g'\<rparr>)"
  have e0: "exec np (parameter_cell 0) k = Done ?k0"
    by (rule parameter_cell_Done)
  have p1: "params ?k1 0" "globals ?k1 ''r'' = Some (ArrV r_micro)"
    by (simp_all add: params_def bind_var_def)
  have d: "draw_frame ''df_1_5'' np ?k1 = Done ?k2"
    by (rule draw_frame_Done [OF p1]) (simp_all add: bind_var_def m)
  have l: "loc_assign_str ''df_1_5'' ''cohort'' ''micro'' np ?k2 = Raised ValueError ?k2"
    by (rule loc_assign_str_ValueError [where f = "from_array [] zscore_names"])
      (simp_all add: bind_var_def column_def nrows_def from_array_def zscore_names_def)
  have "exec np cell_54 ?k0 = Raised ValueError ?k2"
    by (simp add: cell_54_def assign_def d l)
  then have "exec np (cell_54 @ cell_55 @ cell_56 @ cell_57 @ cell_58 @ cell_59 @ cell_60 @
      cell_61) ?k0 = Raised ValueError ?k2"
    by (rule exec_Raised_append)
  then have "exec np (notebook_with 0) k = Raised ValueError ?k2"
    unfolding notebook_with_def simulation_def by (simp only: exec_Done_append [OF e0])
  then show ?thesis by blast
qed

text \<open>Every run with a sample size \<open>n > 0\<close> reaches the last statement of cell 59.\<close>

lemma run_to_cell_59:
  assumes np: "np_contract np" and n: "0 < n"
  shows "\<exists>k2. exec np (parameter_cell n @ (cell_54 @ cell_55 @ cell_56 @ cell_57 @ cell_58) @
      take 3 cell_59) k = Done k2 \<and>
    globals k2 ''num_samples'' = Some (IntV n) \<and>
    globals k2 ''df_501_'' = globals k ''df_501_'' \<and> globals k2 ''df'' = globals k ''df''"
proof -
  let ?k0 = "k\<lparr>globals := (globals k)(''num_samples'' \<mapsto> IntV n,
       ''mu'' \<mapsto> VecV (np_repeat 0 4), ''names'' \<mapsto> ListV zscore_names)\<rparr>"
  have e0: "exec np (parameter_cell n) k = Done ?k0"
    by (rule parameter_cell_Done)
  have p0: "params ?k0 n"
    by (simp add: params_def)
  from cells_54_to_58 [OF np p0 n square_matrices(1), unfolded cell_54_eq]
  obtain k1 where e1: "exec np (cell_54 @ cell_55 @ cell_56 @ cell_57 @ cell_58) ?k0 = Done k1"
    and o1: "\<And>y. y \<notin> {''r'', ''df_1_5'', ''df_6_25'', ''df_26_100''} \<Longrightarrow>
      globals k1 y = globals ?k0 y"
    by blast
  have p1: "params k1 n"
    by (simp add: params_def o1)
  have t3: "take 3 cell_59 = [assign ''r'' (ArrV r_large), draw_frame ''df_101_500'',
      loc_assign_str ''df_101_500'' ''cohort'' ''large'']"
    by (simp add: cell_59_def)
  from cohort_cell_draw [OF np p1 n square_matrices(4) frame_names(4) t3]
  obtain a4 k2 where e2: "exec np (take 3 cell_59) k1 = Done k2"
    and k2: "globals k2 = (globals k1)(''r'' \<mapsto> ArrV r_large,
      ''df_101_500'' \<mapsto> FrameV (labelled a4 ''large''))"
    by blast
  have "exec np (parameter_cell n @ (cell_54 @ cell_55 @ cell_56 @ cell_57 @ cell_58) @
      take 3 cell_59) k = Done k2"
    by (simp only: exec_Done_append [OF e0] exec_Done_append [OF e1] e2)
  moreover have "globals k2 ''num_samples'' = Some (IntV n)"
    "globals k2 ''df_501_'' = globals k ''df_501_''" "globals k2 ''df'' = globals k ''df''"
    by (simp_all add: k2 o1)
  ultimately show ?thesis by blast
qed

lemma notebook_with_split:
  "notebook_with n =
     (parameter_cell n @ (cell_54 @ cell_55 @ cell_56 @ cell_57 @ cell_58) @ take 3 cell_59) @
     loc_assign_randint ''df_501_'' ''firm_size'' 101 500 # cell_60 @ cell_61"
  by (simp add: notebook_with_def simulation_def cell_59_def)

text \<open>There it raises NameError where \<^verbatim>\<open>df_501_\<close> is unbound.\<close>

lemma run_unbound_raises:
  assumes np: "np_contract np" and n: "0 < n" and u: "globals k ''df_501_'' = None"
  shows "\<exists>k'. exec np (notebook_with n) k = Raised (NameError ''df_501_'') k' \<and>
    globals k' ''df'' = globals k ''df''"
proof -
  from run_to_cell_59 [OF np n, of k]
  obtain k2 where e: "exec np (parameter_cell n @ (cell_54 @ cell_55 @ cell_56 @ cell_57 @
      cell_58) @ take 3 cell_59) k = Done k2"
    and ns: "globals k2 ''num_samples'' = Some (IntV n)"
    and d: "globals k2 ''df_501_'' = globals k ''df_501_''"
    and f: "globals k2 ''df'' = globals k ''df''"
    by blast
  from n have n0: "0 \<le> n" by simp
  from u d have u2: "globals k2 ''df_501_'' = None" by simp
  from cohort_cell_sizes_unbound [OF np ns n0 bounds(4) u2]
  obtain k' where s: "loc_assign_randint ''df_501_'' ''firm_size'' 101 500 np k2 =
      Raised (NameError ''df_501_'') k'"
    and k': "globals k' = globals k2"
    by blast
  from s have "exec np (loc_assign_randint ''df_501_'' ''firm_size'' 101 500 # cell_60 @ cell_61) k2 =
      Raised (NameError ''df_501_'') k'"
    by simp
  then have "exec np (notebook_with n) k = Raised (NameError ''df_501_'') k'"
    unfolding notebook_with_split by (simp only: exec_Done_append [OF e])
  with k' f show ?thesis by simp
qed

text \<open>
  In the model it raises unless \<^verbatim>\<open>df_501_\<close> is bound to a frame of \<open>n\<close> rows.
\<close>

lemma run_raises_at_cell_59:
  assumes np: "np_contract np" and n: "0 < n"
    and st: "\<not> (\<exists>f0. globals k ''df_501_'' = Some (FrameV f0) \<and> nrows f0 = nat n)"
  shows "\<exists>e k'. exec np (notebook_with n) k = Raised e k'"
proof -
  from run_to_cell_59 [OF np n, of k]
  obtain k2 where e: "exec np (parameter_cell n @ (cell_54 @ cell_55 @ cell_56 @ cell_57 @
      cell_58) @ take 3 cell_59) k = Done k2"
    and ns: "globals k2 ''num_samples'' = Some (IntV n)"
    and d: "globals k2 ''df_501_'' = globals k ''df_501_''"
    by blast
  from n have n0: "0 \<le> n" by simp
  from contract_randint [OF np bounds(4) n0, of "rng k2"]
  obtain xs g' where xs: "randint np (rng k2) 101 500 n = Inr (xs, g')" "length xs = nat n"
    by blast
  have "\<exists>e k'. loc_assign_randint ''df_501_'' ''firm_size'' 101 500 np k2 = Raised e k'"
  proof (cases "globals k ''df_501_''")
    case None
    with ns xs d show ?thesis
      by (simp add: loc_assign_randint_def get_frame_def get_var_def)
  next
    case (Some v)
    with ns xs d st show ?thesis
      by (cases v) (auto simp add: loc_assign_randint_def get_frame_def get_var_def
          loc_set_array_def)
  qed
  then obtain e1 k' where "loc_assign_randint ''df_501_'' ''firm_size'' 101 500 np k2 = Raised e1 k'"
    by blast
  then have "exec np (loc_assign_randint ''df_501_'' ''firm_size'' 101 500 # cell_60 @ cell_61) k2 =
      Raised e1 k'"
    by simp
  then have "exec np (notebook_with n) k = Raised e1 k'"
    unfolding notebook_with_split by (simp only: exec_Done_append [OF e])
  then show ?thesis by blast
qed

lemma run_finishes_only_if:
  assumes np: "np_contract np" and n: "0 < n"
    and e: "exec np (notebook_with n) k = Done k'"
  shows "\<exists>f0. globals k ''df_501_'' = Some (FrameV f0) \<and> nrows f0 = nat n"
proof (rule ccontr)
  assume "\<not> (\<exists>f0. globals k ''df_501_'' = Some (FrameV f0) \<and> nrows f0 = nat n)"
  from run_raises_at_cell_59 [OF np n this]
  obtain e1 k1 where "exec np (notebook_with n) k = Raised e1 k1"
    by blast
  with e show False by simp
qed

lemma finished_run_has_samples:
  assumes np: "np_contract np" and n: "0 \<le> n"
    and e: "exec np (notebook_with n) k = Done k'"
  shows "0 < n"
proof (rule ccontr)
  assume "\<not> 0 < n"
  with n have "n = 0" by simp
  with zero_size_raises [OF np, of k] e show False by auto
qed

text \<open>A run that has finished: what it drew and what it left.\<close>

lemma notebook_finished:
  assumes np: "np_contract np" and n: "0 \<le> n"
    and e: "exec np (notebook_with n) k = Done k'"
  shows "\<exists>a1 x1 a2 x2 a3 x3 a4 x4 a5 x5.
    cohort_draws np n cohorts (rng k) =
      Some ([(a1, x1), (a2, x2), (a3, x3), (a4, x4), (a5, x5)], rng k') \<and>
    list_all (\<lambda>a. length a = nat n) [a1, a2, a3, a4, a5] \<and>
    list_all (\<lambda>x. length x = nat n) [x1, x2, x3, x4, x5] \<and>
    list_all (\<lambda>v. 1 \<le> v \<and> v < 5) x1 \<and> list_all (\<lambda>v. 6 \<le> v \<and> v < 25) x2 \<and>
    list_all (\<lambda>v. 26 \<le> v \<and> v < 100) x3 \<and> list_all (\<lambda>v. 101 \<le> v \<and> v < 500) x4 \<and>
    list_all (\<lambda>v. 501 \<le> v \<and> v < 2000) x5 \<and>
    globals k' ''df_1_5'' = Some (FrameV (sized (labelled a1 ''micro'') x1)) \<and>
    globals k' ''df_6_25'' = Some (FrameV (sized (labelled a2 ''large'') x2)) \<and>
    globals k' ''df_26_100'' = Some (FrameV (sized (labelled a3 ''medium'') x3)) \<and>
    globals k' ''df_101_500'' = Some (FrameV (labelled a4 ''large'')) \<and>
    globals k' ''df_501_'' = Some (FrameV (sized (labelled a5 ''very large'') x5)) \<and>
    globals k' ''df'' = Some (FrameV (dataset a1 x1 a2 x2 a3 x3 a4 a5 x5))"
proof -
  from finished_run_has_samples [OF np n e] have n1: "0 < n" .
  from run_finishes_only_if [OF np n1 e]
  obtain f0 where st: "globals k ''df_501_'' = Some (FrameV f0)" "nrows f0 = nat n"
    by blast
  from notebook_stale [OF np n1 st, unfolded e] show ?thesis
    by simp
qed

text \<open>The generator calls behind \<open>cohort_draws\<close>, one cohort at a time.\<close>

lemma cohort_draws_Cons:
  assumes "cohort_draws np n ((R, l, h) # cs) g = Some ((a, xs) # ds, g')"
  shows "\<exists>g1 g2. multivariate_normal np g (np_repeat 0 4) R n = Inr (a, g1) \<and>
    randint np g1 l h n = Inr (xs, g2) \<and> cohort_draws np n cs g2 = Some (ds, g')"
  using assms
  by (auto simp add: cohort_draw_def split: sum.splits option.splits prod.splits)

lemma stale_run_finishes:
  assumes "0 < m"
  shows "\<exists>k'. exec np_demo (notebook_with (int m)) (stale m 0) = Done k'"
proof -
  have *: "globals (stale m (0::nat)) ''df_501_'' = Some (FrameV \<lparr>index = [0..<m], columns = []\<rparr>)"
    "nrows \<lparr>index = [0..<m], columns = []\<rparr> = nat (int m)"
    by (simp_all add: stale_def nrows_def)
  from assms have "(0::int) < int m" by simp
  from notebook_stale [OF np_demo_contract this *] show ?thesis
    by blast
qed

section \<open>The claims\<close>

text \<open>
  C1. A run of the notebook with sample size \<open>n > 0\<close> (the notebook has 1000). From a
  kernel in which \<^verbatim>\<open>df_501_\<close> is unbound, a fresh one above all, the run raises NameError
  and leaves \<^verbatim>\<open>df\<close> as it was: no dataset is returned. From a kernel in which \<^verbatim>\<open>df_501_\<close> is
  already bound to a frame of \<open>n\<close> rows, as in the session whose outputs the notebook
  records, the run finishes. And whenever a run finishes, the concatenated \<^verbatim>\<open>df\<close> has
  \<open>n\<close> times the number of cohorts rows, in its index and in every column.
\<close>

theorem dataset_has_five_times_num_samples_rows:
  assumes "np_contract np" and "0 < n"
  shows "(globals k ''df_501_'' = None \<longrightarrow>
      (\<exists>k'. exec np (notebook_with n) k = Raised (NameError ''df_501_'') k' \<and>
        globals k' ''df'' = globals k ''df'')) \<and>
    (\<forall>f0. globals k ''df_501_'' = Some (FrameV f0) \<and> nrows f0 = nat n \<longrightarrow>
      (\<exists>k'. exec np (notebook_with n) k = Done k')) \<and>
    (\<forall>k'. exec np (notebook_with n) k = Done k' \<longrightarrow>
      (\<exists>d. globals k' ''df'' = Some (FrameV d) \<and> nrows d = nat n * length cohorts \<and>
        list_all (\<lambda>(c, vs). length vs = nat n * length cohorts) (columns d)))"
proof (intro conjI allI impI)
  assume "globals k ''df_501_'' = None"
  with assms show "\<exists>k'. exec np (notebook_with n) k = Raised (NameError ''df_501_'') k' \<and>
      globals k' ''df'' = globals k ''df''"
    by (rule run_unbound_raises)
next
  fix f0
  assume "globals k ''df_501_'' = Some (FrameV f0) \<and> nrows f0 = nat n"
  then have "globals k ''df_501_'' = Some (FrameV f0)" "nrows f0 = nat n"
    by simp_all
  from notebook_stale [OF assms this] show "\<exists>k'. exec np (notebook_with n) k = Done k'"
    by blast
next
  fix k'
  assume e: "exec np (notebook_with n) k = Done k'"
  with assms obtain f0 where st: "globals k ''df_501_'' = Some (FrameV f0)" "nrows f0 = nat n"
    using run_finishes_only_if by blast
  from notebook_stale [OF assms st]
  obtain a1 x1 a2 x2 a3 x3 a4 x4 a5 x5 k1 where
    l: "list_all (\<lambda>a. length a = nat n) [a1, a2, a3, a4, a5]"
      "list_all (\<lambda>x. length x = nat n) [x1, x2, x3, x4, x5]"
    and e1: "exec np (notebook_with n) k = Done k1"
    and d: "globals k1 ''df'' = Some (FrameV (dataset a1 x1 a2 x2 a3 x3 a4 a5 x5))"
    by blast
  from e e1 have k1: "k1 = k'" by simp
  have "nrows (dataset a1 x1 a2 x2 a3 x3 a4 a5 x5) = nat n * length cohorts"
    using l by (simp add: nrows_dataset cohorts_def)
  moreover have "list_all (\<lambda>(c, vs). length vs = nat n * length cohorts)
      (columns (dataset a1 x1 a2 x2 a3 x3 a4 a5 x5))"
    using l
    by (simp add: dataset_def pd_concat_def union_columns_dataset concat_column_def
        column_or_nan_def column_labelled columns_sized_labelled columns_labelled
        zscore_names_def cohorts_def)
  ultimately show "\<exists>d. globals k' ''df'' = Some (FrameV d) \<and> nrows d = nat n * length cohorts \<and>
      list_all (\<lambda>(c, vs). length vs = nat n * length cohorts) (columns d)"
    using d k1 by blast
qed

text \<open>
  The notebook itself, on the stand-in generator: from the fresh kernel the run raises
  NameError and \<^verbatim>\<open>df\<close> stays unbound; from the stale kernel it finishes with 5000 rows.
\<close>

theorem dataset_has_five_times_num_samples_rows_witness:
  "(\<exists>k'. exec np_demo notebook (fresh 0) = Raised (NameError ''df_501_'') k' \<and>
      globals k' ''df'' = None) \<and>
   (\<exists>k' d. exec np_demo notebook (stale 1000 0) = Done k' \<and>
      globals k' ''df'' = Some (FrameV d) \<and> nrows d = 5000 \<and>
      list_all (\<lambda>(c, vs). length vs = 5000) (columns d))"
proof -
  have z: "(0::int) < 1000" by simp
  have "globals (fresh (0::nat)) ''df_501_'' = None" "globals (fresh (0::nat)) ''df'' = None"
    by (simp_all add: fresh_def)
  with dataset_has_five_times_num_samples_rows [OF np_demo_contract z, of "fresh 0"]
  have a: "\<exists>k'. exec np_demo notebook (fresh 0) = Raised (NameError ''df_501_'') k' \<and>
      globals k' ''df'' = None"
    by (simp add: notebook_eq)
  have "globals (stale 1000 (0::nat)) ''df_501_'' = Some (FrameV \<lparr>index = [0..<1000], columns = []\<rparr>)"
    "nrows \<lparr>index = [0..<1000], columns = []\<rparr> = nat 1000"
    by (simp_all add: stale_def nrows_def)
  with dataset_has_five_times_num_samples_rows [OF np_demo_contract z, of "stale 1000 0"]
  have "\<exists>k'. exec np_demo notebook (stale 1000 0) = Done k'"
    and "\<forall>k'. exec np_demo notebook (stale 1000 0) = Done k' \<longrightarrow>
      (\<exists>d. globals k' ''df'' = Some (FrameV d) \<and> nrows d = 5000 \<and>
        list_all (\<lambda>(c, vs). length vs = 5000) (columns d))"
    by (simp_all add: notebook_eq cohorts_def)
  then have b: "\<exists>k' d. exec np_demo notebook (stale 1000 0) = Done k' \<and>
      globals k' ''df'' = Some (FrameV d) \<and> nrows d = 5000 \<and>
      list_all (\<lambda>(c, vs). length vs = 5000) (columns d)"
    by blast
  from a b show ?thesis ..
qed

text \<open>
  C2. In every run of the notebook that finishes (sample size \<open>n \<ge> 0\<close>) the firm sizes
  of the concatenated \<^verbatim>\<open>df\<close> are, cohort after cohort: the draws of cells 54, 56 and 58,
  within 1 to 4, 6 to 24 and 26 to 99, turned into floats; \<open>n\<close> missing values, NaN, for
  the rows of the fourth cohort, whose frame never got the column; and the draws of
  cell 60, within 501 to 1999.
\<close>

theorem fourth_cohort_rows_have_no_firm_size:
  assumes "np_contract np" and "0 \<le> n" and "exec np (notebook_with n) k = Done k'"
  shows "\<exists>d x1 x2 x3 x5. globals k' ''df'' = Some (FrameV d) \<and>
    column d ''firm_size'' =
      Some (map (\<lambda>x. FloatC (of_int x)) x1 @ map (\<lambda>x. FloatC (of_int x)) x2 @
        map (\<lambda>x. FloatC (of_int x)) x3 @ replicate (nat n) NaN @
        map (\<lambda>x. FloatC (of_int x)) x5) \<and>
    list_all (\<lambda>x. length x = nat n) [x1, x2, x3, x5] \<and>
    list_all (\<lambda>v. 1 \<le> v \<and> v < 5) x1 \<and> list_all (\<lambda>v. 6 \<le> v \<and> v < 25) x2 \<and>
    list_all (\<lambda>v. 26 \<le> v \<and> v < 100) x3 \<and> list_all (\<lambda>v. 501 \<le> v \<and> v < 2000) x5"
proof -
  from notebook_finished [OF assms]
  obtain a1 x1 a2 x2 a3 x3 a4 x4 a5 x5 where
    l: "list_all (\<lambda>a. length a = nat n) [a1, a2, a3, a4, a5]"
      "list_all (\<lambda>x. length x = nat n) [x1, x2, x3, x4, x5]"
    and r: "list_all (\<lambda>v. 1 \<le> v \<and> v < 5) x1" "list_all (\<lambda>v. 6 \<le> v \<and> v < 25) x2"
      "list_all (\<lambda>v. 26 \<le> v \<and> v < 100) x3" "list_all (\<lambda>v. 501 \<le> v \<and> v < 2000) x5"
    and d: "globals k' ''df'' = Some (FrameV (dataset a1 x1 a2 x2 a3 x3 a4 a5 x5))"
    by blast
  have "column (dataset a1 x1 a2 x2 a3 x3 a4 a5 x5) ''firm_size'' =
      Some (map (\<lambda>x. FloatC (of_int x)) x1 @ map (\<lambda>x. FloatC (of_int x)) x2 @
        map (\<lambda>x. FloatC (of_int x)) x3 @ replicate (nat n) NaN @
        map (\<lambda>x. FloatC (of_int x)) x5)"
    using l by (simp add: firm_size_dataset)
  moreover have "list_all (\<lambda>x. length x = nat n) [x1, x2, x3, x5]"
    using l by simp
  ultimately show ?thesis using d r by blast
qed

text \<open>
  The notebook itself, on the stand-in generator and the stale kernel: the run finishes,
  and rows 3000 to 3999 have NaN.
\<close>

theorem fourth_cohort_rows_have_no_firm_size_witness:
  "\<exists>k'. exec np_demo notebook (stale 1000 0) = Done k' \<and>
    (\<exists>d x1 x2 x3 x5. globals k' ''df'' = Some (FrameV d) \<and>
      column d ''firm_size'' =
        Some (map (\<lambda>x. FloatC (of_int x)) x1 @ map (\<lambda>x. FloatC (of_int x)) x2 @
          map (\<lambda>x. FloatC (of_int x)) x3 @ replicate (nat 1000) NaN @
          map (\<lambda>x. FloatC (of_int x)) x5) \<and>
      list_all (\<lambda>x. length x = nat 1000) [x1, x2, x3, x5] \<and>
      list_all (\<lambda>v. 1 \<le> v \<and> v < 5) x1 \<and> list_all (\<lambda>v. 6 \<le> v \<and> v < 25) x2 \<and>
      list_all (\<lambda>v. 26 \<le> v \<and> v < 100) x3 \<and> list_all (\<lambda>v. 501 \<le> v \<and> v < 2000) x5)"
proof -
  from stale_run_finishes [of 1000]
  obtain k' where e: "exec np_demo (notebook_with 1000) (stale 1000 0) = Done k'"
    by auto
  have z: "(0::int) \<le> 1000" by simp
  from e fourth_cohort_rows_have_no_firm_size [OF np_demo_contract z e] show ?thesis
    unfolding notebook_eq by (intro exI [of _ k'] conjI)
qed

text \<open>
  C3. In every run of the notebook that finishes the cohort column of \<^verbatim>\<open>df\<close> holds, \<open>n\<close>
  rows each, the labels micro, large, medium, large, very large: the label large is on
  \<open>2 n\<close> rows, those of the cells for small and for large firms, and no row is labelled
  small.
\<close>

theorem two_cohorts_carry_the_label_large:
  assumes "np_contract np" and "0 \<le> n" and "exec np (notebook_with n) k = Done k'"
  shows "\<exists>d ls. globals k' ''df'' = Some (FrameV d) \<and> column d ''cohort'' = Some ls \<and>
    ls = replicate (nat n) (StrC ''micro'') @ replicate (nat n) (StrC ''large'') @
      replicate (nat n) (StrC ''medium'') @ replicate (nat n) (StrC ''large'') @
      replicate (nat n) (StrC ''very large'') \<and>
    count_list ls (StrC ''large'') = 2 * nat n \<and> count_list ls (StrC ''small'') = 0"
proof -
  from notebook_finished [OF assms]
  obtain a1 x1 a2 x2 a3 x3 a4 x4 a5 x5 where
    l: "list_all (\<lambda>a. length a = nat n) [a1, a2, a3, a4, a5]"
    and d: "globals k' ''df'' = Some (FrameV (dataset a1 x1 a2 x2 a3 x3 a4 a5 x5))"
    by blast
  let ?ls = "replicate (nat n) (StrC ''micro'') @ replicate (nat n) (StrC ''large'') @
      replicate (nat n) (StrC ''medium'') @ replicate (nat n) (StrC ''large'') @
      replicate (nat n) (StrC ''very large'')"
  have c: "column (dataset a1 x1 a2 x2 a3 x3 a4 a5 x5) ''cohort'' = Some ?ls"
    using l by (simp add: cohort_dataset)
  have cnt: "count_list (replicate m v) w = (if v = w then m else 0)" for m and v w :: cell
    by (induction m) auto
  have "count_list ?ls (StrC ''large'') = 2 * nat n" "count_list ?ls (StrC ''small'') = 0"
    by (simp_all add: cnt)
  with d c show ?thesis by blast
qed

text \<open>The notebook itself, on the stand-in generator: 2000 rows labelled large.\<close>

theorem two_cohorts_carry_the_label_large_witness:
  "\<exists>k'. exec np_demo notebook (stale 1000 0) = Done k' \<and>
    (\<exists>d ls. globals k' ''df'' = Some (FrameV d) \<and> column d ''cohort'' = Some ls \<and>
      ls = replicate (nat 1000) (StrC ''micro'') @ replicate (nat 1000) (StrC ''large'') @
        replicate (nat 1000) (StrC ''medium'') @ replicate (nat 1000) (StrC ''large'') @
        replicate (nat 1000) (StrC ''very large'') \<and>
      count_list ls (StrC ''large'') = 2 * nat 1000 \<and> count_list ls (StrC ''small'') = 0)"
proof -
  from stale_run_finishes [of 1000]
  obtain k' where e: "exec np_demo (notebook_with 1000) (stale 1000 0) = Done k'"
    by auto
  have z: "(0::int) \<le> 1000" by simp
  from e two_cohorts_carry_the_label_large [OF np_demo_contract z e] show ?thesis
    unfolding notebook_eq by (intro exI [of _ k'] conjI)
qed

text \<open>
  C4. Cell 59, the large firms, on a kernel that has the parameters, with a sample size
  \<open>n > 0\<close>, and a frame of \<open>n\<close> rows bound to \<^verbatim>\<open>df_501_\<close>: the cell finishes; the frame it binds to \<^verbatim>\<open>df_101_500\<close> has no
  firm-size column; and the frame of \<^verbatim>\<open>df_501_\<close>, the very large firms, now has as its
  firm sizes the \<open>n\<close> draws of this cell, all within 101 to 499.
\<close>

theorem cell_59_writes_firm_sizes_into_df_501:
  assumes "np_contract np" and "params k n" and "0 < n"
    and "globals k ''df_501_'' = Some (FrameV f0)" and "nrows f0 = nat n"
  shows "\<exists>a xs k'. exec np cell_59 k = Done k' \<and>
    globals k' ''df_101_500'' = Some (FrameV (labelled a ''large'')) \<and>
    column (labelled a ''large'') ''firm_size'' = None \<and>
    globals k' ''df_501_'' = Some (FrameV (sized f0 xs)) \<and>
    column (sized f0 xs) ''firm_size'' = Some (map IntC xs) \<and>
    length xs = nat n \<and> list_all (\<lambda>v. 101 \<le> v \<and> v < 500) xs"
proof -
  from cell_59_stale [OF assms]
  obtain a xs k' where l: "length xs = nat n" "list_all (\<lambda>v. 101 \<le> v \<and> v < 500) xs"
    and e: "exec np cell_59 k = Done k'"
    and g: "globals k' = (globals k)(''r'' \<mapsto> ArrV r_large,
      ''df_101_500'' \<mapsto> FrameV (labelled a ''large''), ''df_501_'' \<mapsto> FrameV (sized f0 xs))"
    by blast
  have f: "globals k' ''df_101_500'' = Some (FrameV (labelled a ''large''))"
    "globals k' ''df_501_'' = Some (FrameV (sized f0 xs))"
    by (simp_all add: g)
  have "column (labelled a ''large'') ''firm_size'' = None"
    by (simp add: column_labelled columns_labelled)
  moreover have "column (sized f0 xs) ''firm_size'' = Some (map IntC xs)"
    by (simp add: column_def sized_def set_column_def update_conv')
  ultimately show ?thesis using l e f by blast
qed

text \<open>
  On the stand-in generator, from the kernel cell 60 left: the sizes 501 and 1999 of the
  very large firms are overwritten.
\<close>

theorem cell_59_writes_firm_sizes_into_df_501_witness:
  "\<exists>a xs k'. exec np_demo cell_59 after_cell_60 = Done k' \<and>
    globals k' ''df_101_500'' = Some (FrameV (labelled a ''large'')) \<and>
    column (labelled a ''large'') ''firm_size'' = None \<and>
    globals k' ''df_501_'' =
      Some (FrameV (sized (sized (labelled [[0, 0, 0, 0], [1, 1, 1, 1]] ''very large'')
         [501, 1999]) xs)) \<and>
    column (sized (sized (labelled [[0, 0, 0, 0], [1, 1, 1, 1]] ''very large'') [501, 1999]) xs)
      ''firm_size'' = Some (map IntC xs) \<and>
    length xs = 2 \<and> list_all (\<lambda>v. 101 \<le> v \<and> v < 500) xs"
  using cell_59_writes_firm_sizes_into_df_501 [OF np_demo_contract, of after_cell_60 2
      "sized (labelled [[0, 0, 0, 0], [1, 1, 1, 1]] ''very large'') [501, 1999]"]
  by (simp add: after_cell_60_def params_def)






text \<open>
  C7. Two runs of the notebook with the same sample size that start from the same
  generator state, on kernels that may differ in everything else: if both finish, the
  frames they bind to \<^verbatim>\<open>df\<close> are equal, and so are the generator states they leave.
\<close>

theorem same_seed_same_dataset:
  assumes "np_contract np" and "0 \<le> n" and "rng k1 = rng k2"
    and "exec np (notebook_with n) k1 = Done k1'" and "exec np (notebook_with n) k2 = Done k2'"
  shows "\<exists>d. globals k1' ''df'' = Some (FrameV d) \<and> globals k2' ''df'' = Some (FrameV d) \<and>
    rng k1' = rng k2'"
proof -
  from notebook_finished [OF assms(1,2,4)]
  obtain a1 x1 a2 x2 a3 x3 a4 x4 a5 x5 where
    d1: "cohort_draws np n cohorts (rng k1) =
      Some ([(a1, x1), (a2, x2), (a3, x3), (a4, x4), (a5, x5)], rng k1')"
    and f1: "globals k1' ''df'' = Some (FrameV (dataset a1 x1 a2 x2 a3 x3 a4 a5 x5))"
    by blast
  from notebook_finished [OF assms(1,2,5)]
  obtain b1 y1 b2 y2 b3 y3 b4 y4 b5 y5 where
    d2: "cohort_draws np n cohorts (rng k2) =
      Some ([(b1, y1), (b2, y2), (b3, y3), (b4, y4), (b5, y5)], rng k2')"
    and f2: "globals k2' ''df'' = Some (FrameV (dataset b1 y1 b2 y2 b3 y3 b4 b5 y5))"
    by blast
  from d1 d2 assms(3) have "a1 = b1 \<and> x1 = y1 \<and> a2 = b2 \<and> x2 = y2 \<and> a3 = b3 \<and> x3 = y3 \<and>
      a4 = b4 \<and> a5 = b5 \<and> x5 = y5 \<and> rng k1' = rng k2'"
    by simp
  with f1 f2 show ?thesis by blast
qed

text \<open>On the stand-in generator, from two different stale kernels: both runs finish.\<close>

theorem same_seed_same_dataset_witness:
  "\<exists>k1' k2' d. exec np_demo (notebook_with 2) (stale 2 0) = Done k1' \<and>
    exec np_demo (notebook_with 2) stale_other = Done k2' \<and>
    globals k1' ''df'' = Some (FrameV d) \<and> globals k2' ''df'' = Some (FrameV d) \<and>
    rng k1' = rng k2'"
proof -
  from stale_run_finishes [of 2]
  obtain k1' where e1: "exec np_demo (notebook_with 2) (stale 2 0) = Done k1'"
    by auto
  have *: "globals stale_other ''df_501_'' =
      Some (FrameV \<lparr>index = [7, 9], columns = [(''firm_size'', [IntC 1, IntC 2])]\<rparr>)"
    "nrows \<lparr>index = [7, 9], columns = [(''firm_size'', [IntC 1, IntC 2])]\<rparr> = nat 2"
    by (simp_all add: stale_other_def nrows_def)
  have z: "(0::int) \<le> 2" and z1: "(0::int) < 2" by simp_all
  from notebook_stale [OF np_demo_contract z1 *]
  obtain k2' where e2: "exec np_demo (notebook_with 2) stale_other = Done k2'"
    by blast
  have "rng (stale 2 (0::nat)) = rng stale_other"
    by (simp add: stale_def stale_other_def)
  from same_seed_same_dataset [OF np_demo_contract z this e1 e2] e1 e2 show ?thesis
    by blast
qed

text \<open>
  C8. A run of the notebook with sample size \<open>n > 0\<close> from a kernel that has a frame of
  \<open>n\<close> rows bound to \<^verbatim>\<open>df_501_\<close> finishes. In every run that finishes, the normal sampler
  is called five times, once per cohort cell and in cell order, each time with the mean
  vector \<open>(0, 0, 0, 0)\<close> and the sample size, and with the matrix of that cell: \<open>r_micro\<close>,
  \<open>r_small\<close>, \<open>r_medium\<close>, \<open>r_large\<close>, \<open>r_very_large\<close>. Each call is made on the generator
  state the call before it left, the calls of \<^verbatim>\<open>randint\<close> in between. The array a call
  returns has \<open>n\<close> rows, and its four columns are the z-score columns of the frame the
  cell binds. And the sampler is consulted with nothing else: two generators that agree
  on the calls with the zero mean, the sample size and one of the five matrices, and on
  \<^verbatim>\<open>randint\<close>, give the same run from every kernel, whatever they do for another mean,
  matrix or size.
\<close>

theorem cohorts_are_drawn_with_zero_mean_and_their_own_matrix:
  "(np_contract np \<and> 0 < n \<and> globals k ''df_501_'' = Some (FrameV f0) \<and> nrows f0 = nat n \<longrightarrow>
      (\<exists>k1. exec np (notebook_with n) k = Done k1)) \<and>
   (np_contract np \<and> 0 \<le> n \<and> exec np (notebook_with n) k = Done k' \<longrightarrow>
      (\<exists>a1 a2 a3 a4 a5 x1 x2 x3 x4 x5 g1 g2 g3 g4 g5 g6 g7 g8 g9 f1 f2 f3 f4 f5.
        multivariate_normal np (rng k) [0, 0, 0, 0] r_micro n = Inr (a1, g1) \<and>
        randint np g1 1 5 n = Inr (x1, g2) \<and>
        multivariate_normal np g2 [0, 0, 0, 0] r_small n = Inr (a2, g3) \<and>
        randint np g3 6 25 n = Inr (x2, g4) \<and>
        multivariate_normal np g4 [0, 0, 0, 0] r_medium n = Inr (a3, g5) \<and>
        randint np g5 26 100 n = Inr (x3, g6) \<and>
        multivariate_normal np g6 [0, 0, 0, 0] r_large n = Inr (a4, g7) \<and>
        randint np g7 101 500 n = Inr (x4, g8) \<and>
        multivariate_normal np g8 [0, 0, 0, 0] r_very_large n = Inr (a5, g9) \<and>
        randint np g9 501 2000 n = Inr (x5, rng k') \<and>
        list_all (\<lambda>a. length a = nat n) [a1, a2, a3, a4, a5] \<and>
        map (globals k') [''df_1_5'', ''df_6_25'', ''df_26_100'', ''df_101_500'', ''df_501_''] =
          map (\<lambda>f. Some (FrameV f)) [f1, f2, f3, f4, f5] \<and>
        map (\<lambda>f. map (column f) zscore_names) [f1, f2, f3, f4, f5] =
          map (\<lambda>a. map (\<lambda>j. Some (map (\<lambda>row. FloatC (row ! j)) a)) [0, 1, 2, 3])
            [a1, a2, a3, a4, a5])) \<and>
   ((\<forall>g R. R \<in> set (map fst cohorts) \<longrightarrow>
        multivariate_normal np' g (np_repeat 0 4) R n =
          multivariate_normal np g (np_repeat 0 4) R n) \<and>
      randint np' = randint np \<longrightarrow>
      exec np' (notebook_with n) k = exec np (notebook_with n) k)"
proof (intro conjI impI)
  assume h: "(\<forall>g R. R \<in> set (map fst cohorts) \<longrightarrow>
        multivariate_normal np' g (np_repeat 0 4) R n =
          multivariate_normal np g (np_repeat 0 4) R n) \<and>
      randint np' = randint np"
  then have a: "\<And>g R. R \<in> set (map fst cohorts) \<Longrightarrow>
      multivariate_normal np' g (np_repeat 0 4) R n = multivariate_normal np g (np_repeat 0 4) R n"
    and r: "randint np' = randint np"
    by blast+
  from a r show "exec np' (notebook_with n) k = exec np (notebook_with n) k"
    by (rule run_insensitive)
next
  assume "np_contract np \<and> 0 < n \<and> globals k ''df_501_'' = Some (FrameV f0) \<and> nrows f0 = nat n"
  then have "np_contract np" "0 < n" "globals k ''df_501_'' = Some (FrameV f0)" "nrows f0 = nat n"
    by simp_all
  from notebook_stale [OF this] show "\<exists>k1. exec np (notebook_with n) k = Done k1"
    by blast
next
  assume h: "np_contract np \<and> 0 \<le> n \<and> exec np (notebook_with n) k = Done k'"
  then have np: "np_contract np" and n: "0 \<le> n" and e: "exec np (notebook_with n) k = Done k'"
    by simp_all
  from notebook_finished [OF np n e]
  obtain a1 x1 a2 x2 a3 x3 a4 x4 a5 x5 where
    dr: "cohort_draws np n cohorts (rng k) =
      Some ([(a1, x1), (a2, x2), (a3, x3), (a4, x4), (a5, x5)], rng k')"
    and l: "list_all (\<lambda>a. length a = nat n) [a1, a2, a3, a4, a5]"
    and f: "globals k' ''df_1_5'' = Some (FrameV (sized (labelled a1 ''micro'') x1))"
      "globals k' ''df_6_25'' = Some (FrameV (sized (labelled a2 ''large'') x2))"
      "globals k' ''df_26_100'' = Some (FrameV (sized (labelled a3 ''medium'') x3))"
      "globals k' ''df_101_500'' = Some (FrameV (labelled a4 ''large''))"
      "globals k' ''df_501_'' = Some (FrameV (sized (labelled a5 ''very large'') x5))"
    by blast
  have z: "np_repeat 0 4 = [0, 0, 0, 0]"
    by (simp add: np_repeat_def numeral_eq_Suc)
  from dr have d0: "cohort_draws np n [(r_micro, 1, 5), (r_small, 6, 25), (r_medium, 26, 100),
      (r_large, 101, 500), (r_very_large, 501, 2000)] (rng k) =
      Some ([(a1, x1), (a2, x2), (a3, x3), (a4, x4), (a5, x5)], rng k')"
    by (simp add: cohorts_def)
  from cohort_draws_Cons [OF d0] obtain g1 g2 where
    c1: "multivariate_normal np (rng k) [0, 0, 0, 0] r_micro n = Inr (a1, g1)"
      "randint np g1 1 5 n = Inr (x1, g2)"
    and d1: "cohort_draws np n [(r_small, 6, 25), (r_medium, 26, 100),
      (r_large, 101, 500), (r_very_large, 501, 2000)] g2 =
      Some ([(a2, x2), (a3, x3), (a4, x4), (a5, x5)], rng k')"
    unfolding z by blast
  from cohort_draws_Cons [OF d1] obtain g3 g4 where
    c2: "multivariate_normal np g2 [0, 0, 0, 0] r_small n = Inr (a2, g3)"
      "randint np g3 6 25 n = Inr (x2, g4)"
    and d2: "cohort_draws np n [(r_medium, 26, 100),
      (r_large, 101, 500), (r_very_large, 501, 2000)] g4 =
      Some ([(a3, x3), (a4, x4), (a5, x5)], rng k')"
    unfolding z by blast
  from cohort_draws_Cons [OF d2] obtain g5 g6 where
    c3: "multivariate_normal np g4 [0, 0, 0, 0] r_medium n = Inr (a3, g5)"
      "randint np g5 26 100 n = Inr (x3, g6)"
    and d3: "cohort_draws np n [(r_large, 101, 500), (r_very_large, 501, 2000)] g6 =
      Some ([(a4, x4), (a5, x5)], rng k')"
    unfolding z by blast
  from cohort_draws_Cons [OF d3] obtain g7 g8 where
    c4: "multivariate_normal np g6 [0, 0, 0, 0] r_large n = Inr (a4, g7)"
      "randint np g7 101 500 n = Inr (x4, g8)"
    and d4: "cohort_draws np n [(r_very_large, 501, 2000)] g8 = Some ([(a5, x5)], rng k')"
    unfolding z by blast
  from cohort_draws_Cons [OF d4] obtain g9 g10 where
    c5: "multivariate_normal np g8 [0, 0, 0, 0] r_very_large n = Inr (a5, g9)"
      "randint np g9 501 2000 n = Inr (x5, g10)"
    and d5: "cohort_draws np n [] g10 = Some ([], rng k')"
    unfolding z by blast
  from d5 have "g10 = rng k'" by simp
  with c5 have c5': "randint np g9 501 2000 n = Inr (x5, rng k')" by simp
  let ?f1 = "sized (labelled a1 ''micro'') x1" and ?f2 = "sized (labelled a2 ''large'') x2"
    and ?f3 = "sized (labelled a3 ''medium'') x3" and ?f4 = "labelled a4 ''large''"
    and ?f5 = "sized (labelled a5 ''very large'') x5"
  have g: "map (globals k') [''df_1_5'', ''df_6_25'', ''df_26_100'', ''df_101_500'', ''df_501_''] =
      map (\<lambda>f. Some (FrameV f)) [?f1, ?f2, ?f3, ?f4, ?f5]"
    using f by simp
  have zf: "map (\<lambda>f. map (column f) zscore_names) [?f1, ?f2, ?f3, ?f4, ?f5] =
      map (\<lambda>a. map (\<lambda>j. Some (map (\<lambda>row. FloatC (row ! j)) a)) [0, 1, 2, 3])
        [a1, a2, a3, a4, a5]"
    by (simp add: column_labelled columns_sized_labelled columns_labelled zscore_names_def)
  from c1 c2 c3 c4 c5(1) c5' l g zf
  show "(\<exists>a1 a2 a3 a4 a5 x1 x2 x3 x4 x5 g1 g2 g3 g4 g5 g6 g7 g8 g9 f1 f2 f3 f4 f5.
        multivariate_normal np (rng k) [0, 0, 0, 0] r_micro n = Inr (a1, g1) \<and>
        randint np g1 1 5 n = Inr (x1, g2) \<and>
        multivariate_normal np g2 [0, 0, 0, 0] r_small n = Inr (a2, g3) \<and>
        randint np g3 6 25 n = Inr (x2, g4) \<and>
        multivariate_normal np g4 [0, 0, 0, 0] r_medium n = Inr (a3, g5) \<and>
        randint np g5 26 100 n = Inr (x3, g6) \<and>
        multivariate_normal np g6 [0, 0, 0, 0] r_large n = Inr (a4, g7) \<and>
        randint np g7 101 500 n = Inr (x4, g8) \<and>
        multivariate_normal np g8 [0, 0, 0, 0] r_very_large n = Inr (a5, g9) \<and>
        randint np g9 501 2000 n = Inr (x5, rng k') \<and>
        list_all (\<lambda>a. length a = nat n) [a1, a2, a3, a4, a5] \<and>
        map (globals k') [''df_1_5'', ''df_6_25'', ''df_26_100'', ''df_101_500'', ''df_501_''] =
          map (\<lambda>f. Some (FrameV f)) [f1, f2, f3, f4, f5] \<and>
        map (\<lambda>f. map (column f) zscore_names) [f1, f2, f3, f4, f5] =
          map (\<lambda>a. map (\<lambda>j. Some (map (\<lambda>row. FloatC (row ! j)) a)) [0, 1, 2, 3])
            [a1, a2, a3, a4, a5])"
    by (intro exI conjI)
qed

text \<open>
  The notebook itself on the stand-in generator, from the stale kernel: the run
  finishes and the calls are as stated. And the two stand-in generators, which differ at
  the mean \<open>(1, 0, 0, 0)\<close>, give the same run.
\<close>

theorem cohorts_are_drawn_with_zero_mean_and_their_own_matrix_witness:
  "(\<exists>k'. exec np_demo notebook (stale 1000 0) = Done k' \<and>
      (\<exists>a1 a2 a3 a4 a5 x1 x2 x3 x4 x5 g1 g2 g3 g4 g5 g6 g7 g8 g9 f1 f2 f3 f4 f5.
        multivariate_normal np_demo (rng (stale 1000 (0::nat))) [0, 0, 0, 0] r_micro 1000 = Inr (a1, g1) \<and>
        randint np_demo g1 1 5 1000 = Inr (x1, g2) \<and>
        multivariate_normal np_demo g2 [0, 0, 0, 0] r_small 1000 = Inr (a2, g3) \<and>
        randint np_demo g3 6 25 1000 = Inr (x2, g4) \<and>
        multivariate_normal np_demo g4 [0, 0, 0, 0] r_medium 1000 = Inr (a3, g5) \<and>
        randint np_demo g5 26 100 1000 = Inr (x3, g6) \<and>
        multivariate_normal np_demo g6 [0, 0, 0, 0] r_large 1000 = Inr (a4, g7) \<and>
        randint np_demo g7 101 500 1000 = Inr (x4, g8) \<and>
        multivariate_normal np_demo g8 [0, 0, 0, 0] r_very_large 1000 = Inr (a5, g9) \<and>
        randint np_demo g9 501 2000 1000 = Inr (x5, rng k') \<and>
        list_all (\<lambda>a. length a = nat 1000) [a1, a2, a3, a4, a5] \<and>
        map (globals k') [''df_1_5'', ''df_6_25'', ''df_26_100'', ''df_101_500'', ''df_501_''] =
          map (\<lambda>f. Some (FrameV f)) [f1, f2, f3, f4, f5] \<and>
        map (\<lambda>f. map (column f) zscore_names) [f1, f2, f3, f4, f5] =
          map (\<lambda>a. map (\<lambda>j. Some (map (\<lambda>row. FloatC (row ! j)) a)) [0, 1, 2, 3])
            [a1, a2, a3, a4, a5])) \<and>
   exec np_zero_mean_only notebook (stale 1000 0) = exec np_demo notebook (stale 1000 0) \<and>
   multivariate_normal np_zero_mean_only 0 [1, 0, 0, 0] r_micro 1 \<noteq>
     multivariate_normal np_demo 0 [1, 0, 0, 0] r_micro 1"
proof -
  have "np_contract np_demo \<and> (0::int) < 1000 \<and>
      globals (stale 1000 (0::nat)) ''df_501_'' = Some (FrameV \<lparr>index = [0..<1000], columns = []\<rparr>) \<and>
      nrows \<lparr>index = [0..<1000], columns = []\<rparr> = nat 1000"
    using np_demo_contract by (simp add: stale_def nrows_def)
  with cohorts_are_drawn_with_zero_mean_and_their_own_matrix
    [where np = np_demo and n = 1000 and k = "stale 1000 0"
       and ?f0.0 = "\<lparr>index = [0..<1000], columns = []\<rparr>"]
  have "\<exists>k1. exec np_demo (notebook_with 1000) (stale 1000 0) = Done k1"
    by (rule mp [OF conjunct1])
  then obtain k' where e: "exec np_demo (notebook_with 1000) (stale 1000 0) = Done k'"
    by blast
  note t = cohorts_are_drawn_with_zero_mean_and_their_own_matrix
    [where np = np_demo and np' = np_zero_mean_only and n = 1000 and k = "stale 1000 0"
       and k' = k', THEN conjunct2]
  have "np_contract np_demo \<and> (0::int) \<le> 1000 \<and>
      exec np_demo (notebook_with 1000) (stale 1000 0) = Done k'"
    using np_demo_contract e by simp
  with t have p: "(\<exists>a1 a2 a3 a4 a5 x1 x2 x3 x4 x5 g1 g2 g3 g4 g5 g6 g7 g8 g9 f1 f2 f3 f4 f5.
        multivariate_normal np_demo (rng (stale 1000 (0::nat))) [0, 0, 0, 0] r_micro 1000 = Inr (a1, g1) \<and>
        randint np_demo g1 1 5 1000 = Inr (x1, g2) \<and>
        multivariate_normal np_demo g2 [0, 0, 0, 0] r_small 1000 = Inr (a2, g3) \<and>
        randint np_demo g3 6 25 1000 = Inr (x2, g4) \<and>
        multivariate_normal np_demo g4 [0, 0, 0, 0] r_medium 1000 = Inr (a3, g5) \<and>
        randint np_demo g5 26 100 1000 = Inr (x3, g6) \<and>
        multivariate_normal np_demo g6 [0, 0, 0, 0] r_large 1000 = Inr (a4, g7) \<and>
        randint np_demo g7 101 500 1000 = Inr (x4, g8) \<and>
        multivariate_normal np_demo g8 [0, 0, 0, 0] r_very_large 1000 = Inr (a5, g9) \<and>
        randint np_demo g9 501 2000 1000 = Inr (x5, rng k') \<and>
        list_all (\<lambda>a. length a = nat 1000) [a1, a2, a3, a4, a5] \<and>
        map (globals k') [''df_1_5'', ''df_6_25'', ''df_26_100'', ''df_101_500'', ''df_501_''] =
          map (\<lambda>f. Some (FrameV f)) [f1, f2, f3, f4, f5] \<and>
        map (\<lambda>f. map (column f) zscore_names) [f1, f2, f3, f4, f5] =
          map (\<lambda>a. map (\<lambda>j. Some (map (\<lambda>row. FloatC (row ! j)) a)) [0, 1, 2, 3])
            [a1, a2, a3, a4, a5])"
    by (rule mp [OF conjunct1])
  have "(\<forall>g R. R \<in> set (map fst cohorts) \<longrightarrow>
        multivariate_normal np_zero_mean_only g (np_repeat 0 4) R 1000 =
          multivariate_normal np_demo g (np_repeat 0 4) R 1000) \<and>
      randint np_zero_mean_only = randint np_demo"
    by (simp add: np_zero_mean_only_def)
  with t have i: "exec np_zero_mean_only (notebook_with 1000) (stale 1000 0) =
      exec np_demo (notebook_with 1000) (stale 1000 0)"
    by (rule mp [OF conjunct2])
  have d: "multivariate_normal np_zero_mean_only 0 [1, 0, 0, 0] r_micro 1 \<noteq>
     multivariate_normal np_demo 0 [1, 0, 0, 0] r_micro 1"
    by (simp add: np_zero_mean_only_def np_demo_def np_repeat_def numeral_eq_Suc)
  from e p have "\<exists>k'. exec np_demo notebook (stale 1000 0) = Done k' \<and>
      (\<exists>a1 a2 a3 a4 a5 x1 x2 x3 x4 x5 g1 g2 g3 g4 g5 g6 g7 g8 g9 f1 f2 f3 f4 f5.
        multivariate_normal np_demo (rng (stale 1000 (0::nat))) [0, 0, 0, 0] r_micro 1000 = Inr (a1, g1) \<and>
        randint np_demo g1 1 5 1000 = Inr (x1, g2) \<and>
        multivariate_normal np_demo g2 [0, 0, 0, 0] r_small 1000 = Inr (a2, g3) \<and>
        randint np_demo g3 6 25 1000 = Inr (x2, g4) \<and>
        multivariate_normal np_demo g4 [0, 0, 0, 0] r_medium 1000 = Inr (a3, g5) \<and>
        randint np_demo g5 26 100 1000 = Inr (x3, g6) \<and>
        multivariate_normal np_demo g6 [0, 0, 0, 0] r_large 1000 = Inr (a4, g7) \<and>
        randint np_demo g7 101 500 1000 = Inr (x4, g8) \<and>
        multivariate_normal np_demo g8 [0, 0, 0, 0] r_very_large 1000 = Inr (a5, g9) \<and>
        randint np_demo g9 501 2000 1000 = Inr (x5, rng k') \<and>
        list_all (\<lambda>a. length a = nat 1000) [a1, a2, a3, a4, a5] \<and>
        map (globals k') [''df_1_5'', ''df_6_25'', ''df_26_100'', ''df_101_500'', ''df_501_''] =
          map (\<lambda>f. Some (FrameV f)) [f1, f2, f3, f4, f5] \<and>
        map (\<lambda>f. map (column f) zscore_names) [f1, f2, f3, f4, f5] =
          map (\<lambda>a. map (\<lambda>j. Some (map (\<lambda>row. FloatC (row ! j)) a)) [0, 1, 2, 3])
            [a1, a2, a3, a4, a5])"
    unfolding notebook_eq by (intro exI [of _ k'] conjI)
  with i d show ?thesis
    unfolding notebook_eq by (intro conjI)
qed

text \<open>
  C9. A run of the notebook from a fresh kernel, cells top to bottom: the cells up to
  cell 58 finish, and so do the first three statements of cell 59; its last statement,
  the firm-size assignment, reads \<^verbatim>\<open>df_501_\<close>, which no earlier cell has bound, and
  raises NameError. The run ends there: \<^verbatim>\<open>df_501_\<close> and the concatenated \<^verbatim>\<open>df\<close> are
  unbound in the kernel it leaves.
\<close>

theorem fresh_run_stops_at_cell_59:
  assumes np: "np_contract np"
  shows "\<exists>k1 k2 k'.
    exec np (cell_53 @ cell_54 @ cell_55 @ cell_56 @ cell_57 @ cell_58) (fresh g) = Done k1 \<and>
    exec np (take 3 cell_59) k1 = Done k2 \<and>
    loc_assign_randint ''df_501_'' ''firm_size'' 101 500 np k2 = Raised (NameError ''df_501_'') k' \<and>
    exec np notebook (fresh g) = Raised (NameError ''df_501_'') k' \<and>
    globals k' ''df_501_'' = None \<and> globals k' ''df'' = None"
proof -
  let ?k0 = "(fresh g)\<lparr>globals := (globals (fresh g))(''num_samples'' \<mapsto> IntV 1000,
       ''mu'' \<mapsto> VecV (np_repeat 0 4), ''names'' \<mapsto> ListV zscore_names)\<rparr>"
  have e0: "exec np cell_53 (fresh g) = Done ?k0"
    unfolding cell_53_def by (rule parameter_cell_Done)
  have p0: "params ?k0 1000"
    by (simp add: params_def)
  have n: "(0::int) < 1000" and n0: "(0::int) \<le> 1000" by simp_all
  from cells_54_to_58 [OF np p0 n square_matrices(1), unfolded cell_54_eq]
  obtain k1 where e1: "exec np (cell_54 @ cell_55 @ cell_56 @ cell_57 @ cell_58) ?k0 = Done k1"
    and o1: "\<And>y. y \<notin> {''r'', ''df_1_5'', ''df_6_25'', ''df_26_100''} \<Longrightarrow>
      globals k1 y = globals ?k0 y"
    by blast
  have p1: "params k1 1000"
    by (simp add: params_def o1)
  have t3: "take 3 cell_59 = [assign ''r'' (ArrV r_large), draw_frame ''df_101_500'',
      loc_assign_str ''df_101_500'' ''cohort'' ''large'']"
    by (simp add: cell_59_def)
  from cohort_cell_draw [OF np p1 n square_matrices(4) frame_names(4) t3]
  obtain a4 k2 where e2: "exec np (take 3 cell_59) k1 = Done k2"
    and k2: "globals k2 = (globals k1)(''r'' \<mapsto> ArrV r_large,
      ''df_101_500'' \<mapsto> FrameV (labelled a4 ''large''))"
    by blast
  have ns: "globals k2 ''num_samples'' = Some (IntV 1000)"
    and u: "globals k2 ''df_501_'' = None" and d: "globals k2 ''df'' = None"
    by (simp_all add: k2 o1 fresh_def)
  from cohort_cell_sizes_unbound [OF np ns n0 bounds(4) u]
  obtain k' where s3: "loc_assign_randint ''df_501_'' ''firm_size'' 101 500 np k2 =
      Raised (NameError ''df_501_'') k'"
    and k': "globals k' = globals k2"
    by blast
  have e3: "exec np [loc_assign_randint ''df_501_'' ''firm_size'' 101 500] k2 =
      Raised (NameError ''df_501_'') k'"
    by (simp add: s3)
  have c59: "exec np cell_59 k1 = Raised (NameError ''df_501_'') k'"
  proof -
    have "cell_59 = take 3 cell_59 @ [loc_assign_randint ''df_501_'' ''firm_size'' 101 500]"
      by (simp add: cell_59_def)
    then have "exec np cell_59 k1 =
        exec np (take 3 cell_59 @ [loc_assign_randint ''df_501_'' ''firm_size'' 101 500]) k1"
      by (rule arg_cong [where f = "\<lambda>c. exec np c k1"])
    also have "\<dots> = Raised (NameError ''df_501_'') k'"
      by (simp only: exec_Done_append [OF e2] e3)
    finally show ?thesis .
  qed
  have pre: "exec np (cell_53 @ cell_54 @ cell_55 @ cell_56 @ cell_57 @ cell_58) (fresh g) = Done k1"
    by (simp only: exec_Done_append [OF e0] e1)
  have "exec np notebook (fresh g) =
      exec np ((cell_53 @ cell_54 @ cell_55 @ cell_56 @ cell_57 @ cell_58) @
        cell_59 @ cell_60 @ cell_61) (fresh g)"
    by (simp add: notebook_def simulation_def)
  also have "\<dots> = Raised (NameError ''df_501_'') k'"
    by (simp only: exec_Done_append [OF pre] exec_Raised_append [OF c59])
  finally have "exec np notebook (fresh g) = Raised (NameError ''df_501_'') k'" .
  with pre e2 s3 u d k' show ?thesis by auto
qed

text \<open>The theorem at the stand-in generator.\<close>

theorem fresh_run_stops_at_cell_59_witness:
  "\<exists>k1 k2 k'.
    exec np_demo (cell_53 @ cell_54 @ cell_55 @ cell_56 @ cell_57 @ cell_58) (fresh 0) = Done k1 \<and>
    exec np_demo (take 3 cell_59) k1 = Done k2 \<and>
    loc_assign_randint ''df_501_'' ''firm_size'' 101 500 np_demo k2 =
      Raised (NameError ''df_501_'') k' \<and>
    exec np_demo notebook (fresh 0) = Raised (NameError ''df_501_'') k' \<and>
    globals k' ''df_501_'' = None \<and> globals k' ''df'' = None"
  by (rule fresh_run_stops_at_cell_59 [OF np_demo_contract])

text \<open>
  C10. The five matrices are 4 by 4, symmetric, with unit diagonal. They agree with one
  another in every entry but the two at (0, 1) and (1, 0), the correlation of job
  satisfaction and intent to quit, which is -0.40, -0.30, -0.25, -0.20, -0.15 in cell
  order, strictly increasing.
\<close>

theorem matrices_differ_only_in_job_sat_int_qui:
  "list_all (\<lambda>m. square 4 m \<and> transpose m = m \<and> map (\<lambda>i. m ! i ! i) [0..<4] = [1, 1, 1, 1])
     [r_micro, r_small, r_medium, r_large, r_very_large] \<and>
   list_all (\<lambda>m. list_all (\<lambda>(i, j). m ! i ! j = r_micro ! i ! j)
       (filter (\<lambda>p. p \<noteq> (0, 1) \<and> p \<noteq> (1, 0)) (List.product [0..<4] [0..<4])))
     [r_micro, r_small, r_medium, r_large, r_very_large] \<and>
   map (\<lambda>m. m ! 0 ! 1) [r_micro, r_small, r_medium, r_large, r_very_large] =
     [-0.40, -0.30, -0.25, -0.20, -0.15] \<and>
   map (\<lambda>m. m ! 1 ! 0) [r_micro, r_small, r_medium, r_large, r_very_large] =
     [-0.40, -0.30, -0.25, -0.20, -0.15] \<and>
   sorted_wrt (<) (map (\<lambda>m. m ! 0 ! 1) [r_micro, r_small, r_medium, r_large, r_very_large])"
  by (simp add: square_def r_micro_def r_small_def r_medium_def r_large_def r_very_large_def
      transpose.simps upt_rec [of _ 4] upt_rec [of _ "Suc _"] numeral_eq_Suc del: upt_Suc)

end
